theory Spec2Isabelle
  imports Main "HOL-Library.Sublist"
begin

section \<open>Data model of make-ros2-branches-consistent.ts\<close>

text \<open>
  A value caught by a \<^verbatim>\<open>catch (e)\<close> clause, of type unknown. What the file does
  with it is to interpolate \<^verbatim>\<open>${e instanceof Error ? e.message : e}\<close> into a
  template literal, so a thrown value is told apart by the outcome of that conversion:
  \<open>JsError m\<close> is an \<^verbatim>\<open>Error\<close> object whose message converts to the text
  \<open>m\<close>; \<open>JsValue v\<close> is any other value that converts to the text \<open>v\<close>;
  \<open>JsOpaque t\<close> is a value for which the conversion itself throws \<open>t\<close> (a
  Symbol, for which the template literal raises a TypeError, or an object whose toString
  throws or is missing).
\<close>

datatype js_exn = JsError string | JsValue string | JsOpaque js_exn

text \<open>
  The expression \<^verbatim>\<open>${e instanceof Error ? e.message : e}\<close> of the two catch clauses:
  the text it yields, or the exception it raises.
\<close>

fun exn_text :: "js_exn \<Rightarrow> js_exn + string" where
  "exn_text (JsError m) = Inr m"
| "exn_text (JsValue v) = Inr v"
| "exn_text (JsOpaque t) = Inl t"

text \<open>A repository record of the repos file, as the loop reads and mutates it.\<close>

record repo =
  org :: string
  name :: string
  url :: string
  version :: string

text \<open>
  Every operation on the outside world the file performs, with the arguments it passes:
  the helpers imported from ./cache, ./github and ./file-system, and fs.writeFileSync.
  The last argument of \<open>CreateCommitAndPushFile\<close> is the isDryRun flag handed to the helper.
\<close>

datatype call =
    MakeCacheDir string bool
  | DownloadFile string string
  | GetDefaultBranch string string
  | PullGitRepo string string string
  | CreateCommitAndPushFile string string string string bool
  | CreateNewBranch string string string string
  | SetDefaultBranch string string string
  | RetargetPrs string string string string
  | WriteFileSync string string

text \<open>
  The imported helpers and library functions, none of which is defined in this file.
  Each is a parameter: the answer of an effectful helper may depend on every operation
  performed before it (the first argument), and a helper that can throw answers with
  \<open>Inl\<close> (or \<open>Some\<close>) of the thrown value. The type \<open>'d\<close> is the parsed
  distribution file; setDistributionVersion mutates it in place and may throw.
\<close>

record 'd env =
  join :: "string list \<Rightarrow> string"
  endent :: "string list \<Rightarrow> string list \<Rightarrow> string"
  existsSync :: "call list \<Rightarrow> string \<Rightarrow> bool"
  makeCacheDir :: "call list \<Rightarrow> string \<Rightarrow> bool \<Rightarrow> js_exn option"
  downloadFile :: "call list \<Rightarrow> string \<Rightarrow> string \<Rightarrow> js_exn option"
  getRepos :: "call list \<Rightarrow> string \<Rightarrow> js_exn + repo list"
  getDistributionFile :: "call list \<Rightarrow> string \<Rightarrow> js_exn + 'd"
  getDefaultBranch :: "call list \<Rightarrow> string \<Rightarrow> string \<Rightarrow> js_exn + string"
  pullGitRepo :: "call list \<Rightarrow> string \<Rightarrow> string \<Rightarrow> string \<Rightarrow> js_exn + string"
  createCommitAndPushFile ::
    "call list \<Rightarrow> string \<Rightarrow> string \<Rightarrow> string \<Rightarrow> string \<Rightarrow> bool \<Rightarrow> js_exn + string"
  createNewBranch :: "call list \<Rightarrow> string \<Rightarrow> string \<Rightarrow> string \<Rightarrow> string \<Rightarrow> js_exn option"
  setDefaultBranch :: "call list \<Rightarrow> string \<Rightarrow> string \<Rightarrow> string \<Rightarrow> js_exn option"
  retargetPrs :: "call list \<Rightarrow> string \<Rightarrow> string \<Rightarrow> string \<Rightarrow> string \<Rightarrow> js_exn option"
  setDistributionVersion :: "'d \<Rightarrow> string \<Rightarrow> string \<Rightarrow> js_exn option \<times> 'd"
  toReposFile :: "repo list \<Rightarrow> string"
  toDistributionFile :: "'d \<Rightarrow> string"
  writeFileSync :: "call list \<Rightarrow> string \<Rightarrow> string \<Rightarrow> js_exn option"

text \<open>
  The state the loop works on: the operations performed and the lines printed so far
  (oldest first), the local array \<^verbatim>\<open>errors\<close> and the distribution object.
\<close>

record 'd state =
  calls :: "call list"
  logs :: "string list"
  errors :: "string list"
  distribution :: "'d"

text \<open>The arguments of makeRos2BranchesConsistent, after its defaults are applied.\<close>

record params =
  newBranch :: string
  reposBranch :: string
  rosDistroDirectory :: string
  reposToExclude :: "string list"
  cacheDir :: string
  isDryRun :: bool
  isForceRefresh :: bool

text \<open>The arguments as the caller gives them: the last three may be left out.\<close>

record arguments =
  arg_newBranch :: string
  arg_reposBranch :: string
  arg_rosDistroDirectory :: string
  arg_reposToExclude :: "string list"
  arg_cacheDir :: "string option"
  arg_isDryRun :: "bool option"
  arg_isForceRefresh :: "bool option"

section \<open>Logging\<close>

definition console_log :: "string \<Rightarrow> 'd state \<Rightarrow> 'd state" where
  "console_log message st = st\<lparr>logs := logs st @ [message]\<rparr>"

definition logSubItem :: "string \<Rightarrow> 'd state \<Rightarrow> 'd state" where
  "logSubItem message st = console_log ('' - '' @ message) st"

definition logSubItemError :: "string \<Rightarrow> 'd state \<Rightarrow> 'd state" where
  "logSubItemError message st = logSubItem (''ERROR: '' @ message) st"

definition perform :: "call \<Rightarrow> 'd state \<Rightarrow> 'd state" where
  "perform c st = st\<lparr>calls := calls st @ [c]\<rparr>"

section \<open>The mirror-workflow step\<close>

text \<open>
  The literal parts of the template handed to endent, between its five placeholders
  (newBranch, oldBranch, newBranch, oldBranch, oldBranch).
\<close>

definition workflowTemplate :: "string list" where
  "workflowTemplate =
    [''\<newline>      name: Mirror '',
     '' to '',
     ''\<newline>\<newline>      on:\<newline>        push:\<newline>          branches: [ '',
     '' ]\<newline>\<newline>      jobs:\<newline>        mirror-to-'',
     '':\<newline>          runs-on: ubuntu-latest\<newline>          steps:\<newline>          - uses: zofrex/mirror-branch@v1\<newline>            with:\<newline>              target-branch: '',
     ''\<newline>    '']"

definition migrationWorkflowFilePath :: "'d env \<Rightarrow> string \<Rightarrow> string \<Rightarrow> string \<Rightarrow> string" where
  "migrationWorkflowFilePath env repoPath oldBranch newBranch' =
     join env [repoPath, ''.github'', ''workflows'',
       ''mirror-'' @ newBranch' @ ''-to-'' @ oldBranch @ ''.yaml'']"

definition migrationWorkflowFileContent :: "'d env \<Rightarrow> string \<Rightarrow> string \<Rightarrow> string" where
  "migrationWorkflowFileContent env oldBranch newBranch' =
     endent env workflowTemplate [newBranch', oldBranch, newBranch', oldBranch, oldBranch]"

definition mirrorCommitMessage :: "string \<Rightarrow> string \<Rightarrow> string" where
  "mirrorCommitMessage oldBranch newBranch' = ''Mirror '' @ newBranch' @ '' to '' @ oldBranch"

text \<open>
  pushMirrorWorkflow. The result \<open>Some e\<close> is the helper's exception leaving the
  function, in which case the final logSubItem is not reached.
\<close>

definition pushMirrorWorkflow ::
  "'d env \<Rightarrow> string \<Rightarrow> string \<Rightarrow> string \<Rightarrow> bool \<Rightarrow> 'd state \<Rightarrow> js_exn option \<times> 'd state" where
  "pushMirrorWorkflow env oldBranch newBranch' repoPath dry st =
     (let path = migrationWorkflowFilePath env repoPath oldBranch newBranch' in
      if existsSync env (calls st) path then
        (None, logSubItem (''Doing nothing - Workflow file already exists: '' @ path) st)
      else
        (let content = migrationWorkflowFileContent env oldBranch newBranch';
             commitMessage = mirrorCommitMessage oldBranch newBranch';
             st1 = perform (CreateCommitAndPushFile repoPath path content commitMessage dry) st
         in case createCommitAndPushFile env (calls st) repoPath path content commitMessage dry of
              Inl e \<Rightarrow> (Some e, st1)
            | Inr message \<Rightarrow> (None, logSubItem message st1)))"

section \<open>The default-branch-change step\<close>

definition changeDefaultBranchAndRetargetPrs ::
  "'d env \<Rightarrow> string \<Rightarrow> string \<Rightarrow> string \<Rightarrow> string \<Rightarrow> bool \<Rightarrow> 'd state \<Rightarrow> js_exn option \<times> 'd state" where
  "changeDefaultBranchAndRetargetPrs env oldBranch newBranch' repoOrg repoName dry st =
     (if \<not> dry then
        (let st1 = perform (CreateNewBranch repoOrg repoName oldBranch newBranch') st in
         case createNewBranch env (calls st) repoOrg repoName oldBranch newBranch' of
           Some e \<Rightarrow> (Some e, st1)
         | None \<Rightarrow>
            (let st2 = perform (SetDefaultBranch repoOrg repoName newBranch') st1 in
             case setDefaultBranch env (calls st1) repoOrg repoName newBranch' of
               Some e \<Rightarrow> (Some e, st2)
             | None \<Rightarrow>
                (let st3 = perform (RetargetPrs repoOrg repoName oldBranch newBranch') st2 in
                 case retargetPrs env (calls st2) repoOrg repoName oldBranch newBranch' of
                   Some e \<Rightarrow> (Some e, st3)
                 | None \<Rightarrow>
                    (None, logSubItem (''Updated '' @ repoOrg @ ''/'' @ repoName @
                       '' default branch from '' @ oldBranch @ '' to '' @ newBranch' @
                       '' and retargetted PRs'') st3))))
      else
        (None, logSubItem (''Would create a new branch '' @ newBranch' @ '' from '' @
           oldBranch @ '' and retarget PRs'') st))"

section \<open>The loop over the repositories\<close>

text \<open>
  The message both catch clauses of the loop build (lines 92-94 and 108-110): the fixed
  part up to the colon and the space after it, then the text of the caught value. When
  the caught value cannot be converted, building the message throws.
\<close>

definition errorLabel :: "repo \<Rightarrow> string" where
  "errorLabel r =
     ''Error changing default branch and retargetting PRs on '' @ org r @ ''/'' @ name r @
     '': ''"

definition errorMessage :: "repo \<Rightarrow> js_exn \<Rightarrow> js_exn + string" where
  "errorMessage r e =
     (case exn_text e of
        Inl t \<Rightarrow> Inl t
      | Inr shown \<Rightarrow> Inr (errorLabel r @ shown))"

text \<open>
  A try block followed by its catch clause. The exception of the step, if any, is turned
  into the message, logged with logSubItemError and pushed on \<^verbatim>\<open>errors\<close>. The
  catch clause stands in no try block itself: an exception raised while the message is
  built leaves it (the result \<open>Some t\<close>), before anything is logged or pushed.
\<close>

definition catchStep :: "repo \<Rightarrow> js_exn option \<times> 'd state \<Rightarrow> js_exn option \<times> 'd state" where
  "catchStep r res =
     (case res of
        (None, st) \<Rightarrow> (None, st)
      | (Some e, st) \<Rightarrow>
          (case errorMessage r e of
             Inl t \<Rightarrow> (Some t, st)
           | Inr message \<Rightarrow>
               (let st1 = logSubItemError message st
                in (None, st1\<lparr>errors := errors st1 @ [message]\<rparr>))))"

text \<open>Lines 115-122: the version of the record, then the distribution.\<close>

definition updateDistribution :: "'d env \<Rightarrow> params \<Rightarrow> repo \<Rightarrow> 'd state \<Rightarrow> 'd state" where
  "updateDistribution env p r st =
     (case setDistributionVersion env (distribution st) (name r) (newBranch p) of
        (None, d) \<Rightarrow> st\<lparr>distribution := d\<rparr>
      | (Some e, d) \<Rightarrow>
          logSubItem (''Could not update distribution.yaml, since '' @ org r @ ''/'' @ name r @
            '' is not in the distribution.yaml'') (st\<lparr>distribution := d\<rparr>))"

definition repoPathOf :: "'d env \<Rightarrow> params \<Rightarrow> repo \<Rightarrow> string" where
  "repoPathOf env p r = join env [cacheDir p, reposBranch p, org r, name r]"

text \<open>
  Lines 84-122, reached once the working copy is pulled: the two steps, each in its own
  try/catch, then the update of the record and of the distribution. An exception that
  leaves a catch clause leaves the iteration: what follows is not run.
\<close>

definition migrateRepo ::
  "'d env \<Rightarrow> params \<Rightarrow> repo \<Rightarrow> string \<Rightarrow> 'd state \<Rightarrow> (js_exn + repo) \<times> 'd state" where
  "migrateRepo env p r oldBranch st =
     (case catchStep r
             (pushMirrorWorkflow env oldBranch (newBranch p) (repoPathOf env p r) (isDryRun p) st) of
        (Some t, st1) \<Rightarrow> (Inl t, st1)
      | (None, st1) \<Rightarrow>
          (case catchStep r
                  (changeDefaultBranchAndRetargetPrs env oldBranch (newBranch p) (org r) (name r)
                     (isDryRun p) st1) of
             (Some t, st2) \<Rightarrow> (Inl t, st2)
           | (None, st2) \<Rightarrow>
               (Inr (r\<lparr>version := newBranch p\<rparr>), updateDistribution env p r st2)))"

text \<open>
  The body of the for loop (lines 65-127) for one repository. \<open>Inl e\<close> is an
  exception leaving the body, and with it the loop and the function; \<open>Inr r'\<close> is the
  record as the iteration leaves it.
\<close>

definition reconcileRepo ::
  "'d env \<Rightarrow> params \<Rightarrow> repo \<Rightarrow> 'd state \<Rightarrow> (js_exn + repo) \<times> 'd state" where
  "reconcileRepo env p r st =
     (if org r @ ''/'' @ name r \<in> set (reposToExclude p) then
        (Inr r, console_log (''Skipping '' @ org r @ ''/'' @ name r @
           '' since it is on the exclude list'') st)
      else
        (let st1 = perform (GetDefaultBranch (org r) (name r)) st in
         case getDefaultBranch env (calls st) (org r) (name r) of
           Inl e \<Rightarrow> (Inl e, st1)
         | Inr oldBranch \<Rightarrow>
             if oldBranch \<noteq> newBranch p then
               (let st2 = console_log (''Processing '' @ org r @ ''/'' @ name r) st1;
                    repoPath = repoPathOf env p r;
                    st3 = perform (PullGitRepo (url r) repoPath (version r)) st2
                in case pullGitRepo env (calls st2) (url r) repoPath (version r) of
                     Inl e \<Rightarrow> (Inl e, st3)
                   | Inr pullMessage \<Rightarrow>
                       migrateRepo env p r oldBranch (logSubItem pullMessage st3))
             else
               (Inr r, logSubItem (''Doing nothing - '' @ org r @ ''/'' @ name r @
                  '' already has the default branch '' @ reposBranch p) st1)))"

text \<open>The for loop (lines 64-128): the records in order, stopping at an exception.\<close>

fun reconcileRepos ::
  "'d env \<Rightarrow> params \<Rightarrow> repo list \<Rightarrow> 'd state \<Rightarrow> (js_exn + repo list) \<times> 'd state" where
  "reconcileRepos env p [] st = (Inr [], st)"
| "reconcileRepos env p (r # rs) st =
     (case reconcileRepo env p r st of
        (Inl e, st1) \<Rightarrow> (Inl e, st1)
      | (Inr r', st1) \<Rightarrow>
          (case reconcileRepos env p rs st1 of
             (Inl e, st2) \<Rightarrow> (Inl e, st2)
           | (Inr rs', st2) \<Rightarrow> (Inr (r' # rs'), st2)))"

section \<open>The exported function\<close>

definition applyDefaults :: "arguments \<Rightarrow> params" where
  "applyDefaults a =
     \<lparr>newBranch = arg_newBranch a,
      reposBranch = arg_reposBranch a,
      rosDistroDirectory = arg_rosDistroDirectory a,
      reposToExclude = arg_reposToExclude a,
      cacheDir = (case arg_cacheDir a of None \<Rightarrow> ''.cache'' | Some c \<Rightarrow> c),
      isDryRun = (case arg_isDryRun a of None \<Rightarrow> True | Some b \<Rightarrow> b),
      isForceRefresh = (case arg_isForceRefresh a of None \<Rightarrow> False | Some b \<Rightarrow> b)\<rparr>"

definition reposYamlPath :: "'d env \<Rightarrow> params \<Rightarrow> string" where
  "reposYamlPath env p = join env [cacheDir p, ''ros2.repos.'' @ reposBranch p @ ''.yaml'']"

definition outputReposYamlPath :: "'d env \<Rightarrow> params \<Rightarrow> string" where
  "outputReposYamlPath env p =
     join env [cacheDir p, ''ros2.repos.'' @ reposBranch p @ ''.output.yaml'']"

definition reposYamlUrl :: "params \<Rightarrow> string" where
  "reposYamlUrl p =
     ''https://raw.githubusercontent.com/ros2/ros2/'' @ reposBranch p @ ''/ros2.repos''"

definition rosDistroYamlPath :: "'d env \<Rightarrow> params \<Rightarrow> string" where
  "rosDistroYamlPath env p =
     join env [cacheDir p, ''distribution.'' @ rosDistroDirectory p @ ''.yaml'']"

definition outputRosDistroYamlPath :: "'d env \<Rightarrow> params \<Rightarrow> string" where
  "outputRosDistroYamlPath env p =
     join env [cacheDir p, ''distribution.'' @ rosDistroDirectory p @ ''.output.yaml'']"

definition rosDistroYamlUrl :: "params \<Rightarrow> string" where
  "rosDistroYamlUrl p =
     ''https://raw.githubusercontent.com/ros/rosdistro/master/'' @ rosDistroDirectory p @
     ''/distribution.yaml''"

text \<open>
  Lines 38-61, before the loop: the cache directory, then the two downloads, each
  followed by the parse of the downloaded file. Returns the operations performed and
  either the exception that ended the function or the two parsed structures.
\<close>

definition loadManifests :: "'d env \<Rightarrow> params \<Rightarrow> (js_exn + repo list \<times> 'd) \<times> call list" where
  "loadManifests env p =
     (let c1 = [MakeCacheDir (cacheDir p) (isForceRefresh p)] in
      case makeCacheDir env [] (cacheDir p) (isForceRefresh p) of
        Some e \<Rightarrow> (Inl e, c1)
      | None \<Rightarrow>
         (let c2 = c1 @ [DownloadFile (reposYamlUrl p) (reposYamlPath env p)] in
          case downloadFile env c1 (reposYamlUrl p) (reposYamlPath env p) of
            Some e \<Rightarrow> (Inl e, c2)
          | None \<Rightarrow>
             (case getRepos env c2 (reposYamlPath env p) of
                Inl e \<Rightarrow> (Inl e, c2)
              | Inr repos \<Rightarrow>
                 (let c3 = c2 @ [DownloadFile (rosDistroYamlUrl p) (rosDistroYamlPath env p)] in
                  case downloadFile env c2 (rosDistroYamlUrl p) (rosDistroYamlPath env p) of
                    Some e \<Rightarrow> (Inl e, c3)
                  | None \<Rightarrow>
                     (case getDistributionFile env c3 (rosDistroYamlPath env p) of
                        Inl e \<Rightarrow> (Inl e, c3)
                      | Inr d \<Rightarrow> (Inr (repos, d), c3))))))"

text \<open>Lines 137-142: the summary printed at the end.\<close>

definition printSummary :: "'d state \<Rightarrow> 'd state" where
  "printSummary st =
     (if length (errors st) > 0 then
        foldl (\<lambda>s message. logSubItem message s) (console_log ''Finished with errors:'' st)
          (errors st)
      else console_log ''Done! - No errors'' st)"

text \<open>Lines 129-142, after the loop: the two output files, then the summary.\<close>

definition writeOutputs :: "'d env \<Rightarrow> params \<Rightarrow> repo list \<Rightarrow> 'd state \<Rightarrow> js_exn option \<times> 'd state" where
  "writeOutputs env p repos st =
     (let st1 = perform (WriteFileSync (outputReposYamlPath env p) (toReposFile env repos)) st in
      case writeFileSync env (calls st) (outputReposYamlPath env p) (toReposFile env repos) of
        Some e \<Rightarrow> (Some e, st1)
      | None \<Rightarrow>
         (let st2 = perform (WriteFileSync (outputRosDistroYamlPath env p)
                      (toDistributionFile env (distribution st1))) st1 in
          case writeFileSync env (calls st1) (outputRosDistroYamlPath env p)
                 (toDistributionFile env (distribution st1)) of
            Some e \<Rightarrow> (Some e, st2)
          | None \<Rightarrow> (None, printSummary st2)))"

text \<open>
  What a caller of the function can observe: whether the returned promise rejects
  (\<open>thrown\<close>; \<open>None\<close> is a promise resolved, with no value), the operations
  performed and the lines printed. The array \<^verbatim>\<open>errors\<close> is local to the function and
  is not returned; \<open>recorded\<close> exposes it for the statements below.
\<close>

text \<open>The state at line 63: nothing printed yet, \<^verbatim>\<open>errors\<close> empty.\<close>

definition initialState :: "call list \<Rightarrow> 'd \<Rightarrow> 'd state" where
  "initialState cs d = \<lparr>calls = cs, logs = [], errors = [], distribution = d\<rparr>"

record outcome =
  thrown :: "js_exn option"
  performed :: "call list"
  printed :: "string list"
  recorded :: "string list"

definition makeRos2BranchesConsistent :: "'d env \<Rightarrow> arguments \<Rightarrow> outcome" where
  "makeRos2BranchesConsistent env a =
     (let p = applyDefaults a in
      case loadManifests env p of
        (Inl e, cs) \<Rightarrow> \<lparr>thrown = Some e, performed = cs, printed = [], recorded = []\<rparr>
      | (Inr (repos, d), cs) \<Rightarrow>
         (case reconcileRepos env p repos (initialState cs d) of
            (Inl e, st) \<Rightarrow>
              \<lparr>thrown = Some e, performed = calls st, printed = logs st, recorded = errors st\<rparr>
          | (Inr repos', st) \<Rightarrow>
             (case writeOutputs env p repos' st of
                (r, st') \<Rightarrow>
                  \<lparr>thrown = r, performed = calls st', printed = logs st',
                   recorded = errors st'\<rparr>)))"

section \<open>A concrete instance for the worked examples\<close>

text \<open>
  The examples below run the function on one repository, ros2/foo pinned at rolling,
  with helpers that succeed and answer in the simplest way: paths are joined with a
  slash, the template is filled in without re-indenting, no workflow file exists yet,
  and the distribution is a list of (name, version) pairs whose setter throws on a
  missing name. An example that needs a failing helper overrides that field.
\<close>

fun joinSlash :: "string list \<Rightarrow> string" where
  "joinSlash [] = ''.''"
| "joinSlash [x] = x"
| "joinSlash (x # y # ys) = x @ ''/'' @ joinSlash (y # ys)"

fun fillTemplate :: "string list \<Rightarrow> string list \<Rightarrow> string" where
  "fillTemplate (s # ss) (v # vs) = s @ v @ fillTemplate ss vs"
| "fillTemplate ss [] = concat ss"
| "fillTemplate [] vs = []"

definition fooRepo :: repo where
  "fooRepo = \<lparr>org = ''ros2'', name = ''foo'', url = ''https://github.com/ros2/foo.git'',
     version = ''rolling''\<rparr>"

definition setPinned ::
  "(string \<times> string) list \<Rightarrow> string \<Rightarrow> string \<Rightarrow> js_exn option \<times> (string \<times> string) list" where
  "setPinned d n v =
     (case map_of d n of
        None \<Rightarrow> (Some (JsError (n @ '' not found'')), d)
      | Some old \<Rightarrow> (None, map (\<lambda>(k, x). if k = n then (k, v) else (k, x)) d))"

definition exampleEnv :: "string \<Rightarrow> (string \<times> string) list env" where
  "exampleEnv remoteBranch =
     \<lparr>join = joinSlash,
      endent = fillTemplate,
      existsSync = (\<lambda>h path. False),
      makeCacheDir = (\<lambda>h path force. None),
      downloadFile = (\<lambda>h u path. None),
      getRepos = (\<lambda>h path. Inr [fooRepo]),
      getDistributionFile = (\<lambda>h path. Inr [(''foo'', ''rolling'')]),
      getDefaultBranch = (\<lambda>h repoOrg repoName. Inr remoteBranch),
      pullGitRepo = (\<lambda>h u path v. Inr (''Pulled '' @ u)),
      createCommitAndPushFile = (\<lambda>h repoPath filePath content message dry.
         Inr ((if dry then ''Would commit '' else ''Committed '') @ filePath)),
      createNewBranch = (\<lambda>h repoOrg repoName baseBranch newBranchName. None),
      setDefaultBranch = (\<lambda>h repoOrg repoName branch. None),
      retargetPrs = (\<lambda>h repoOrg repoName fromBranch toBranch. None),
      setDistributionVersion = setPinned,
      toReposFile = (\<lambda>rs. concat (map (\<lambda>r. org r @ ''/'' @ name r @ '' '' @ version r @ '';'') rs)),
      toDistributionFile = (\<lambda>d. concat (map (\<lambda>(k, v). k @ '' '' @ v @ '';'') d)),
      writeFileSync = (\<lambda>h path content. None)\<rparr>"

text \<open>Target branch rolling; cacheDir, isDryRun and isForceRefresh left to their defaults.\<close>

definition exampleArguments :: arguments where
  "exampleArguments =
     \<lparr>arg_newBranch = ''rolling'', arg_reposBranch = ''master'',
      arg_rosDistroDirectory = ''rolling'', arg_reposToExclude = [''ros2/excluded''],
      arg_cacheDir = None, arg_isDryRun = None, arg_isForceRefresh = None\<rparr>"

definition exampleState :: "(string \<times> string) list state" where
  "exampleState = initialState [] [(''foo'', ''rolling'')]"

definition excludedRepo :: repo where
  "excludedRepo = \<lparr>org = ''ros2'', name = ''excluded'',
     url = ''https://github.com/ros2/excluded.git'', version = ''master''\<rparr>"

definition barRepo :: repo where
  "barRepo = \<lparr>org = ''ros2'', name = ''bar'', url = ''https://github.com/ros2/bar.git'',
     version = ''master''\<rparr>"

text \<open>Remote default branch galactic; the push of the workflow file and setDefaultBranch throw.\<close>

definition failingEnv :: "(string \<times> string) list env" where
  "failingEnv =
     (exampleEnv ''galactic'')\<lparr>
        createCommitAndPushFile :=
          (\<lambda>h repoPath filePath content message dry. Inl (JsError ''push rejected'')),
        setDefaultBranch := (\<lambda>h repoOrg repoName branch. Some (JsValue ''403''))\<rparr>"

text \<open>
  Remote default branch galactic; the push of the workflow file throws a Symbol, which
  the catch clause cannot interpolate: the template literal raises a TypeError.
\<close>

definition symbolEnv :: "(string \<times> string) list env" where
  "symbolEnv =
     (exampleEnv ''galactic'')\<lparr>
        createCommitAndPushFile :=
          (\<lambda>h repoPath filePath content message dry.
             Inl (JsOpaque (JsError ''Cannot convert a Symbol value to a string'')))\<rparr>"

text \<open>Remote default branch galactic; the clone returns the empty message.\<close>

definition terseEnv :: "(string \<times> string) list env" where
  "terseEnv = (exampleEnv ''galactic'')\<lparr>pullGitRepo := (\<lambda>h u path v. Inr [])\<rparr>"

text \<open>Two repositories in the list, and a query of the default branch that throws.\<close>

definition unreachableEnv :: "(string \<times> string) list env" where
  "unreachableEnv =
     (exampleEnv ''galactic'')\<lparr>
        getRepos := (\<lambda>h path. Inr [fooRepo, barRepo]),
        getDefaultBranch := (\<lambda>h repoOrg repoName. Inl (JsError ''rate limited''))\<rparr>"

definition exampleParams :: params where
  "exampleParams = applyDefaults exampleArguments"

section \<open>Effects of the logging functions\<close>

lemma console_log_fields [simp]:
  "calls (console_log m st) = calls st"
  "logs (console_log m st) = logs st @ [m]"
  "errors (console_log m st) = errors st"
  "distribution (console_log m st) = distribution st"
  by (simp_all add: console_log_def)

lemma logSubItem_fields [simp]:
  "calls (logSubItem m st) = calls st"
  "logs (logSubItem m st) = logs st @ ['' - '' @ m]"
  "errors (logSubItem m st) = errors st"
  "distribution (logSubItem m st) = distribution st"
  by (simp_all add: logSubItem_def)

lemma logSubItemError_fields [simp]:
  "calls (logSubItemError m st) = calls st"
  "logs (logSubItemError m st) = logs st @ ['' - ERROR: '' @ m]"
  "errors (logSubItemError m st) = errors st"
  "distribution (logSubItemError m st) = distribution st"
  by (simp_all add: logSubItemError_def)

lemma perform_fields [simp]:
  "calls (perform c st) = calls st @ [c]"
  "logs (perform c st) = logs st"
  "errors (perform c st) = errors st"
  "distribution (perform c st) = distribution st"
  by (simp_all add: perform_def)

lemma initialState_fields [simp]:
  "calls (initialState cs d) = cs"
  "logs (initialState cs d) = []"
  "errors (initialState cs d) = []"
  "distribution (initialState cs d) = d"
  by (simp_all add: initialState_def)

lemmas example_defs =
  exampleEnv_def exampleArguments_def exampleParams_def exampleState_def initialState_def
  fooRepo_def barRepo_def excludedRepo_def setPinned_def applyDefaults_def failingEnv_def
  unreachableEnv_def symbolEnv_def terseEnv_def

lemmas run_defs =
  makeRos2BranchesConsistent_def loadManifests_def writeOutputs_def printSummary_def
  reconcileRepo_def migrateRepo_def catchStep_def updateDistribution_def repoPathOf_def
  pushMirrorWorkflow_def changeDefaultBranchAndRetargetPrs_def errorMessage_def errorLabel_def
  migrationWorkflowFilePath_def migrationWorkflowFileContent_def mirrorCommitMessage_def
  reposYamlPath_def outputReposYamlPath_def reposYamlUrl_def rosDistroYamlPath_def
  outputRosDistroYamlPath_def rosDistroYamlUrl_def

section \<open>The default-branch-change step: its calls and their order\<close>

text \<open>
  Claim C7. Outside dry-run, changeDefaultBranchAndRetargetPrs calls createNewBranch, then
  setDefaultBranch, then retargetPrs, each once and in this order: when none of them
  fails these three are exactly the calls made, and the "Updated ..." line is printed.
  A call that fails ends the step with that very exception: the calls after it are not
  made, none is made again, and nothing is printed. In dry-run the step makes no call
  at all, cannot fail, and prints the single line "Would create a new branch ...". In
  every case the step itself leaves \<^verbatim>\<open>errors\<close> and the distribution alone.
\<close>

theorem changeDefaultBranch_calls_in_order:
  fixes env :: "'d env" and st :: "'d state"
    and repoOrg repoName oldB newB :: string and dry :: bool
  defines "c1 \<equiv> CreateNewBranch repoOrg repoName oldB newB"
      and "c2 \<equiv> SetDefaultBranch repoOrg repoName newB"
      and "c3 \<equiv> RetargetPrs repoOrg repoName oldB newB"
  defines "res \<equiv> changeDefaultBranchAndRetargetPrs env oldB newB repoOrg repoName dry st"
  defines "a1 \<equiv> createNewBranch env (calls st) repoOrg repoName oldB newB"
      and "a2 \<equiv> setDefaultBranch env (calls st @ [c1]) repoOrg repoName newB"
      and "a3 \<equiv> retargetPrs env (calls st @ [c1, c2]) repoOrg repoName oldB newB"
  shows "(\<not> dry \<and> a1 = None \<and> a2 = None \<and> a3 = None \<longrightarrow>
            fst res = None \<and> calls (snd res) = calls st @ [c1, c2, c3] \<and>
            logs (snd res) = logs st @ ['' - Updated '' @ repoOrg @ ''/'' @ repoName @
              '' default branch from '' @ oldB @ '' to '' @ newB @ '' and retargetted PRs''])
       \<and> (\<not> dry \<and> a1 \<noteq> None \<longrightarrow>
            fst res = a1 \<and> calls (snd res) = calls st @ [c1] \<and> logs (snd res) = logs st)
       \<and> (\<not> dry \<and> a1 = None \<and> a2 \<noteq> None \<longrightarrow>
            fst res = a2 \<and> calls (snd res) = calls st @ [c1, c2] \<and> logs (snd res) = logs st)
       \<and> (\<not> dry \<and> a1 = None \<and> a2 = None \<and> a3 \<noteq> None \<longrightarrow>
            fst res = a3 \<and> calls (snd res) = calls st @ [c1, c2, c3] \<and> logs (snd res) = logs st)
       \<and> (dry \<longrightarrow>
            fst res = None \<and> calls (snd res) = calls st \<and>
            logs (snd res) = logs st @ ['' - Would create a new branch '' @ newB @ '' from '' @
              oldB @ '' and retarget PRs''])
       \<and> errors (snd res) = errors st \<and> distribution (snd res) = distribution st"
  unfolding res_def a1_def a2_def a3_def c1_def c2_def c3_def
    changeDefaultBranchAndRetargetPrs_def Let_def
  by (auto split: option.splits)

text \<open>
  The step on ros2/foo from galactic to rolling: with helpers that succeed, with a
  setDefaultBranch that throws, and in dry-run.
\<close>

theorem changeDefaultBranch_calls_in_order_witness:
  "changeDefaultBranchAndRetargetPrs (exampleEnv ''galactic'') ''galactic'' ''rolling''
       ''ros2'' ''foo'' False exampleState
     = (None, exampleState\<lparr>
          calls := [CreateNewBranch ''ros2'' ''foo'' ''galactic'' ''rolling'',
                    SetDefaultBranch ''ros2'' ''foo'' ''rolling'',
                    RetargetPrs ''ros2'' ''foo'' ''galactic'' ''rolling''],
          logs := ['' - Updated ros2/foo default branch from galactic to rolling and retargetted PRs'']\<rparr>)
   \<and> (let res = changeDefaultBranchAndRetargetPrs
          ((exampleEnv ''galactic'')\<lparr>setDefaultBranch := (\<lambda>h repoOrg repoName branch. Some (JsError ''denied''))\<rparr>)
          ''galactic'' ''rolling'' ''ros2'' ''foo'' False exampleState
      in fst res = Some (JsError ''denied'') \<and>
         calls (snd res) = [CreateNewBranch ''ros2'' ''foo'' ''galactic'' ''rolling'',
                            SetDefaultBranch ''ros2'' ''foo'' ''rolling''] \<and>
         logs (snd res) = [])
   \<and> (let res = changeDefaultBranchAndRetargetPrs (exampleEnv ''galactic'') ''galactic'' ''rolling''
          ''ros2'' ''foo'' True exampleState
      in fst res = None \<and> calls (snd res) = [] \<and>
         logs (snd res) = ['' - Would create a new branch rolling from galactic and retarget PRs''])"
  using changeDefaultBranch_calls_in_order
      [where dry = False and env = "exampleEnv ''galactic''" and st = exampleState
         and repoOrg = "''ros2''" and repoName = "''foo''" and oldB = "''galactic''"
         and newB = "''rolling''"]
    changeDefaultBranch_calls_in_order
      [where dry = False
         and env = "(exampleEnv ''galactic'')\<lparr>setDefaultBranch :=
                      (\<lambda>h repoOrg repoName branch. Some (JsError ''denied''))\<rparr>"
         and st = exampleState
         and repoOrg = "''ros2''" and repoName = "''foo''" and oldB = "''galactic''"
         and newB = "''rolling''"]
    changeDefaultBranch_calls_in_order
      [where dry = True and env = "exampleEnv ''galactic''" and st = exampleState
         and repoOrg = "''ros2''" and repoName = "''foo''" and oldB = "''galactic''"
         and newB = "''rolling''"]
  by (simp add: exampleEnv_def exampleState_def initialState_def prod_eq_iff)

section \<open>The mirror-workflow step\<close>

text \<open>
  Claim C4. pushMirrorWorkflow computes the path
  join(repoPath, .github, workflows, mirror-NEW-to-OLD.yaml), a function of the two
  branch names inside the repository's workflow directory. If a file exists there, it
  calls nothing and prints "Doing nothing - Workflow file already exists: PATH".
  Otherwise it calls createCommitAndPushFile exactly once, for that one path, with the
  content endent renders from the fixed template and the two branch names, the commit
  message "Mirror NEW to OLD", and the isDryRun flag it was given; the status message the
  helper returns is printed, and an exception of the helper leaves the step.
\<close>

theorem pushMirrorWorkflow_contract:
  fixes env :: "'d env" and st :: "'d state"
    and repoPath oldB newB :: string and dry :: bool
  defines "path \<equiv> join env [repoPath, ''.github'', ''workflows'',
                     ''mirror-'' @ newB @ ''-to-'' @ oldB @ ''.yaml'']"
      and "content \<equiv> endent env workflowTemplate [newB, oldB, newB, oldB, oldB]"
      and "message \<equiv> ''Mirror '' @ newB @ '' to '' @ oldB"
  defines "res \<equiv> pushMirrorWorkflow env oldB newB repoPath dry st"
  shows "(existsSync env (calls st) path \<longrightarrow>
            fst res = None \<and> calls (snd res) = calls st \<and>
            logs (snd res) =
              logs st @ ['' - Doing nothing - Workflow file already exists: '' @ path])
       \<and> (\<not> existsSync env (calls st) path \<longrightarrow>
            calls (snd res) = calls st @ [CreateCommitAndPushFile repoPath path content message dry] \<and>
            (case createCommitAndPushFile env (calls st) repoPath path content message dry of
               Inl e \<Rightarrow> fst res = Some e \<and> logs (snd res) = logs st
             | Inr status \<Rightarrow> fst res = None \<and> logs (snd res) = logs st @ ['' - '' @ status]))
       \<and> errors (snd res) = errors st \<and> distribution (snd res) = distribution st"
  unfolding res_def path_def content_def message_def pushMirrorWorkflow_def Let_def
    migrationWorkflowFilePath_def migrationWorkflowFileContent_def mirrorCommitMessage_def
  by (auto split: sum.splits)

text \<open>
  The step for galactic and rolling in the working copy of ros2/foo: first with no
  workflow file, then with the file already there.
\<close>

theorem pushMirrorWorkflow_contract_witness:
  "pushMirrorWorkflow (exampleEnv ''galactic'') ''galactic'' ''rolling''
       ''.cache/master/ros2/foo'' False exampleState
     = (None, exampleState\<lparr>
          calls := [CreateCommitAndPushFile ''.cache/master/ros2/foo''
            ''.cache/master/ros2/foo/.github/workflows/mirror-rolling-to-galactic.yaml''
            (fillTemplate workflowTemplate
               [''rolling'', ''galactic'', ''rolling'', ''galactic'', ''galactic''])
            ''Mirror rolling to galactic'' False],
          logs := ['' - Committed .cache/master/ros2/foo/.github/workflows/mirror-rolling-to-galactic.yaml'']\<rparr>)
   \<and> pushMirrorWorkflow ((exampleEnv ''galactic'')\<lparr>existsSync := (\<lambda>h path. True)\<rparr>)
       ''galactic'' ''rolling'' ''.cache/master/ros2/foo'' False exampleState
     = (None, exampleState\<lparr>
          logs := ['' - Doing nothing - Workflow file already exists: .cache/master/ros2/foo/.github/workflows/mirror-rolling-to-galactic.yaml'']\<rparr>)"
  using pushMirrorWorkflow_contract
      [where env = "exampleEnv ''galactic''" and st = exampleState and dry = False
         and repoPath = "''.cache/master/ros2/foo''" and oldB = "''galactic''"
         and newB = "''rolling''"]
    pushMirrorWorkflow_contract
      [where env = "(exampleEnv ''galactic'')\<lparr>existsSync := (\<lambda>h path. True)\<rparr>"
         and st = exampleState and dry = False
         and repoPath = "''.cache/master/ros2/foo''" and oldB = "''galactic''"
         and newB = "''rolling''"]
  by (simp add: exampleEnv_def exampleState_def initialState_def prod_eq_iff)

section \<open>Effects of the steps inside the loop\<close>

lemma migrateRepo_unfold:
  "migrateRepo env p r oldB st =
     (let m = catchStep r (pushMirrorWorkflow env oldB (newBranch p) (repoPathOf env p r)
                (isDryRun p) st)
      in case fst m of
           Some t \<Rightarrow> (Inl t, snd m)
         | None \<Rightarrow>
             (let c = catchStep r (changeDefaultBranchAndRetargetPrs env oldB (newBranch p)
                        (org r) (name r) (isDryRun p) (snd m))
              in case fst c of
                   Some t \<Rightarrow> (Inl t, snd c)
                 | None \<Rightarrow>
                     (Inr (r\<lparr>version := newBranch p\<rparr>), updateDistribution env p r (snd c))))"
  by (simp add: migrateRepo_def Let_def split: prod.splits option.splits)

lemma catchStep_fields [simp]:
  "calls (snd (catchStep r res)) = calls (snd res)"
  "distribution (snd (catchStep r res)) = distribution (snd res)"
  "fst (catchStep r res) =
     (case fst res of
        None \<Rightarrow> None
      | Some e \<Rightarrow> (case exn_text e of Inl t \<Rightarrow> Some t | Inr shown \<Rightarrow> None))"
  "errors (snd (catchStep r res)) =
     errors (snd res) @
     (case fst res of
        None \<Rightarrow> []
      | Some e \<Rightarrow> (case exn_text e of Inl t \<Rightarrow> [] | Inr shown \<Rightarrow> [errorLabel r @ shown]))"
  "logs (snd (catchStep r res)) =
     logs (snd res) @
     (case fst res of
        None \<Rightarrow> []
      | Some e \<Rightarrow>
          (case exn_text e of Inl t \<Rightarrow> [] | Inr shown \<Rightarrow> ['' - ERROR: '' @ errorLabel r @ shown]))"
  by (cases res; cases "fst res"; cases "exn_text (the (fst res))";
      simp add: catchStep_def errorMessage_def Let_def)+

lemma updateDistribution_fields [simp]:
  "calls (updateDistribution env p r st) = calls st"
  "errors (updateDistribution env p r st) = errors st"
  "distribution (updateDistribution env p r st) =
     snd (setDistributionVersion env (distribution st) (name r) (newBranch p))"
  "logs (updateDistribution env p r st) =
     logs st @ (case fst (setDistributionVersion env (distribution st) (name r) (newBranch p)) of
                  None \<Rightarrow> []
                | Some e \<Rightarrow> ['' - Could not update distribution.yaml, since '' @ org r @ ''/'' @
                    name r @ '' is not in the distribution.yaml''])"
  by (auto simp: updateDistribution_def split: prod.splits option.splits)

lemma pushMirrorWorkflow_keeps [simp]:
  "errors (snd (pushMirrorWorkflow env oldB newB repoPath dry st)) = errors st"
  "distribution (snd (pushMirrorWorkflow env oldB newB repoPath dry st)) = distribution st"
  by (auto simp: pushMirrorWorkflow_def Let_def split: sum.splits)

lemma changeDefaultBranch_keeps [simp]:
  "errors (snd (changeDefaultBranchAndRetargetPrs env oldB newB repoOrg repoName dry st)) = errors st"
  "distribution (snd (changeDefaultBranchAndRetargetPrs env oldB newB repoOrg repoName dry st)) =
     distribution st"
  by (auto simp: changeDefaultBranchAndRetargetPrs_def Let_def split: option.splits)

lemma pushMirrorWorkflow_extends:
  "\<exists>cs ls. calls (snd (pushMirrorWorkflow env oldB newB repoPath dry st)) = calls st @ cs \<and>
           logs (snd (pushMirrorWorkflow env oldB newB repoPath dry st)) = logs st @ ls"
  by (auto simp: pushMirrorWorkflow_def Let_def split: sum.splits)

lemma changeDefaultBranch_extends:
  "\<exists>cs ls. calls (snd (changeDefaultBranchAndRetargetPrs env oldB newB repoOrg repoName dry st))
             = calls st @ cs \<and>
           logs (snd (changeDefaultBranchAndRetargetPrs env oldB newB repoOrg repoName dry st))
             = logs st @ ls"
  by (auto simp: changeDefaultBranchAndRetargetPrs_def Let_def split: option.splits)

lemma migrateRepo_extends:
  "\<exists>cs ls. calls (snd (migrateRepo env p r oldB st)) = calls st @ cs \<and>
           logs (snd (migrateRepo env p r oldB st)) = logs st @ ls"
proof -
  let ?m = "pushMirrorWorkflow env oldB (newBranch p) (repoPathOf env p r) (isDryRun p) st"
  let ?c = "changeDefaultBranchAndRetargetPrs env oldB (newBranch p) (org r) (name r)
              (isDryRun p) (snd (catchStep r ?m))"
  obtain cs1 ls1 where m: "calls (snd ?m) = calls st @ cs1" "logs (snd ?m) = logs st @ ls1"
    using pushMirrorWorkflow_extends [of env oldB "newBranch p" "repoPathOf env p r"
        "isDryRun p" st]
    by blast
  obtain cs2 ls2 where c: "calls (snd ?c) = calls (snd (catchStep r ?m)) @ cs2"
      "logs (snd ?c) = logs (snd (catchStep r ?m)) @ ls2"
    using changeDefaultBranch_extends [of env oldB "newBranch p" "org r" "name r" "isDryRun p"
        "snd (catchStep r ?m)"]
    by blast
  show ?thesis
    unfolding migrateRepo_unfold Let_def
    by (simp add: m c split: option.splits sum.splits)
qed

section \<open>Repositories the loop leaves alone\<close>

text \<open>
  Claim C5. For a repository whose "org/name" is on the exclude list, the iteration
  performs no operation at all (so no remote call), returns the record as it was, and
  leaves the distribution and \<^verbatim>\<open>errors\<close> unchanged; it only prints the "Skipping ..."
  line.
\<close>

theorem excluded_repo_untouched:
  assumes "org r @ ''/'' @ name r \<in> set (reposToExclude p)"
  shows "fst (reconcileRepo env p r st) = Inr r
       \<and> calls (snd (reconcileRepo env p r st)) = calls st
       \<and> distribution (snd (reconcileRepo env p r st)) = distribution st
       \<and> errors (snd (reconcileRepo env p r st)) = errors st
       \<and> logs (snd (reconcileRepo env p r st)) =
           logs st @ [''Skipping '' @ org r @ ''/'' @ name r @ '' since it is on the exclude list'']"
  using assms by (simp add: reconcileRepo_def)


text \<open>The excluded repository ros2/excluded, whatever its remote default branch.\<close>

theorem excluded_repo_untouched_witness:
  "org excludedRepo @ ''/'' @ name excludedRepo \<in> set (reposToExclude exampleParams)
   \<and> reconcileRepo (exampleEnv ''galactic'') exampleParams excludedRepo exampleState
     = (Inr excludedRepo, exampleState\<lparr>logs :=
          [''Skipping ros2/excluded since it is on the exclude list'']\<rparr>)"
  using excluded_repo_untouched
      [where r = excludedRepo and p = exampleParams and env = "exampleEnv ''galactic''"
         and st = exampleState]
  by (simp add: example_defs prod_eq_iff)

text \<open>
  Claim C6. For a repository (not excluded) whose remote default branch already is the
  target branch, the iteration makes one call, the query of the default branch, and
  therefore no remote mutation; it prints the "Doing nothing - ..." line and returns the
  record, version included, unchanged, as it leaves the distribution and
  \<^verbatim>\<open>errors\<close>. In particular the whole function, run on the list with the one
  repository ros2/foo pinned at rolling, remote default branch rolling and target
  rolling, performs the setup, the query and the two writes only, and the repository
  list it writes is the serialisation of the unchanged record, whose version is rolling.
\<close>

theorem already_target_is_noop:
  assumes "org r @ ''/'' @ name r \<notin> set (reposToExclude p)"
    and "getDefaultBranch env (calls st) (org r) (name r) = Inr (newBranch p)"
  shows "fst (reconcileRepo env p r st) = Inr r
       \<and> calls (snd (reconcileRepo env p r st)) = calls st @ [GetDefaultBranch (org r) (name r)]
       \<and> logs (snd (reconcileRepo env p r st)) =
           logs st @ ['' - Doing nothing - '' @ org r @ ''/'' @ name r @
             '' already has the default branch '' @ reposBranch p]
       \<and> errors (snd (reconcileRepo env p r st)) = errors st
       \<and> distribution (snd (reconcileRepo env p r st)) = distribution st
       \<and> makeRos2BranchesConsistent (exampleEnv ''rolling'') exampleArguments =
           \<lparr>thrown = None,
            performed =
              [MakeCacheDir ''.cache'' False,
               DownloadFile ''https://raw.githubusercontent.com/ros2/ros2/master/ros2.repos''
                 ''.cache/ros2.repos.master.yaml'',
               DownloadFile
                 ''https://raw.githubusercontent.com/ros/rosdistro/master/rolling/distribution.yaml''
                 ''.cache/distribution.rolling.yaml'',
               GetDefaultBranch ''ros2'' ''foo'',
               WriteFileSync ''.cache/ros2.repos.master.output.yaml''
                 (toReposFile (exampleEnv ''rolling'')
                    [\<lparr>org = ''ros2'', name = ''foo'', url = ''https://github.com/ros2/foo.git'',
                      version = ''rolling''\<rparr>]),
               WriteFileSync ''.cache/distribution.rolling.output.yaml''
                 (toDistributionFile (exampleEnv ''rolling'') [(''foo'', ''rolling'')])],
            printed =
              ['' - Doing nothing - ros2/foo already has the default branch master'',
               ''Done! - No errors''],
            recorded = []\<rparr>"
proof -
  have "makeRos2BranchesConsistent (exampleEnv ''rolling'') exampleArguments =
           \<lparr>thrown = None,
            performed =
              [MakeCacheDir ''.cache'' False,
               DownloadFile ''https://raw.githubusercontent.com/ros2/ros2/master/ros2.repos''
                 ''.cache/ros2.repos.master.yaml'',
               DownloadFile
                 ''https://raw.githubusercontent.com/ros/rosdistro/master/rolling/distribution.yaml''
                 ''.cache/distribution.rolling.yaml'',
               GetDefaultBranch ''ros2'' ''foo'',
               WriteFileSync ''.cache/ros2.repos.master.output.yaml''
                 (toReposFile (exampleEnv ''rolling'')
                    [\<lparr>org = ''ros2'', name = ''foo'', url = ''https://github.com/ros2/foo.git'',
                      version = ''rolling''\<rparr>]),
               WriteFileSync ''.cache/distribution.rolling.output.yaml''
                 (toDistributionFile (exampleEnv ''rolling'') [(''foo'', ''rolling'')])],
            printed =
              ['' - Doing nothing - ros2/foo already has the default branch master'',
               ''Done! - No errors''],
            recorded = []\<rparr>"
    by (simp add: example_defs run_defs Let_def)
  moreover have "fst (reconcileRepo env p r st) = Inr r
       \<and> calls (snd (reconcileRepo env p r st)) = calls st @ [GetDefaultBranch (org r) (name r)]
       \<and> logs (snd (reconcileRepo env p r st)) =
           logs st @ ['' - Doing nothing - '' @ org r @ ''/'' @ name r @
             '' already has the default branch '' @ reposBranch p]
       \<and> errors (snd (reconcileRepo env p r st)) = errors st
       \<and> distribution (snd (reconcileRepo env p r st)) = distribution st"
    using assms by (simp add: reconcileRepo_def Let_def)
  ultimately show ?thesis by simp
qed

text \<open>The iteration for ros2/foo when the remote default branch is rolling already.\<close>

theorem already_target_is_noop_witness:
  "org fooRepo @ ''/'' @ name fooRepo \<notin> set (reposToExclude exampleParams)
   \<and> getDefaultBranch (exampleEnv ''rolling'') (calls exampleState) (org fooRepo) (name fooRepo)
       = Inr (newBranch exampleParams)
   \<and> reconcileRepo (exampleEnv ''rolling'') exampleParams fooRepo exampleState
     = (Inr fooRepo, exampleState\<lparr>
          calls := [GetDefaultBranch ''ros2'' ''foo''],
          logs := ['' - Doing nothing - ros2/foo already has the default branch master'']\<rparr>)
   \<and> version fooRepo = ''rolling''"
  using already_target_is_noop
      [where r = fooRepo and p = exampleParams and env = "exampleEnv ''rolling''"
         and st = exampleState]
  by (simp add: example_defs prod_eq_iff)

section \<open>The clone of the working copy\<close>

text \<open>
  Claim C10. For a repository that is not excluded and whose remote default branch
  differs from the target branch, the iteration calls pullGitRepo right after the query,
  with the record's url and version and the path join(cacheDir, reposBranch, org, name),
  whatever the value \<open>dry\<close> of isDryRun (no hypothesis mentions it). The call stands
  outside both try blocks: when it throws, the exception leaves the iteration, nothing is
  pushed on \<^verbatim>\<open>errors\<close>, and no later call is made.
\<close>

theorem pull_is_unconditional:
  fixes env :: "'d env" and dry :: bool and p :: params and r :: repo
  defines "q \<equiv> p\<lparr>isDryRun := dry\<rparr>"
  defines "repoPath \<equiv> join env [cacheDir p, reposBranch p, org r, name r]"
  assumes "org r @ ''/'' @ name r \<notin> set (reposToExclude p)"
    and "getDefaultBranch env (calls st) (org r) (name r) = Inr oldB"
    and "oldB \<noteq> newBranch p"
  shows "(\<exists>cs. calls (snd (reconcileRepo env q r st)) =
            calls st @ [GetDefaultBranch (org r) (name r),
                        PullGitRepo (url r) repoPath (version r)] @ cs)
       \<and> (\<forall>e. pullGitRepo env (calls st @ [GetDefaultBranch (org r) (name r)])
                 (url r) repoPath (version r) = Inl e \<longrightarrow>
              fst (reconcileRepo env q r st) = Inl e \<and>
              calls (snd (reconcileRepo env q r st)) =
                calls st @ [GetDefaultBranch (org r) (name r),
                            PullGitRepo (url r) repoPath (version r)] \<and>
              errors (snd (reconcileRepo env q r st)) = errors st)"
proof (cases "pullGitRepo env (calls st @ [GetDefaultBranch (org r) (name r)])
                 (url r) repoPath (version r)")
  case (Inl e)
  with assms(3-5) show ?thesis
    by (simp add: reconcileRepo_def Let_def q_def repoPath_def repoPathOf_def)
next
  case (Inr msg)
  let ?st3 = "logSubItem msg (perform (PullGitRepo (url r) repoPath (version r))
               (console_log (''Processing '' @ org r @ ''/'' @ name r)
                 (perform (GetDefaultBranch (org r) (name r)) st)))"
  obtain cs ls where ext: "calls (snd (migrateRepo env q r oldB ?st3)) = calls ?st3 @ cs"
    using migrateRepo_extends by blast
  with Inr assms(3-5) show ?thesis
    by (simp add: reconcileRepo_def Let_def q_def repoPath_def repoPathOf_def)
qed

text \<open>
  The iteration for ros2/foo in dry-run with remote default branch galactic: the clone
  is made, and a clone that throws ends the iteration with its exception.
\<close>

theorem pull_is_unconditional_witness:
  "org fooRepo @ ''/'' @ name fooRepo \<notin> set (reposToExclude exampleParams)
   \<and> getDefaultBranch (exampleEnv ''galactic'') (calls exampleState) (org fooRepo) (name fooRepo)
       = Inr ''galactic''
   \<and> ''galactic'' \<noteq> newBranch exampleParams
   \<and> take 2 (calls (snd (reconcileRepo (exampleEnv ''galactic'')
        (exampleParams\<lparr>isDryRun := True\<rparr>) fooRepo exampleState)))
     = [GetDefaultBranch ''ros2'' ''foo'',
        PullGitRepo ''https://github.com/ros2/foo.git'' ''.cache/master/ros2/foo'' ''rolling'']
   \<and> fst (reconcileRepo
        ((exampleEnv ''galactic'')\<lparr>pullGitRepo := (\<lambda>h u path v. Inl (JsError ''clone failed''))\<rparr>)
        (exampleParams\<lparr>isDryRun := True\<rparr>) fooRepo exampleState)
     = Inl (JsError ''clone failed'')"
  using pull_is_unconditional
      [where r = fooRepo and p = exampleParams and env = "exampleEnv ''galactic''"
         and st = exampleState and oldB = "''galactic''" and dry = True]
    pull_is_unconditional
      [where r = fooRepo and p = exampleParams
         and env = "(exampleEnv ''galactic'')\<lparr>pullGitRepo :=
                      (\<lambda>h u path v. Inl (JsError ''clone failed''))\<rparr>"
         and st = exampleState and oldB = "''galactic''" and dry = True]
  by (auto simp add: example_defs)


section \<open>The two steps of a migration\<close>

lemma changeDefaultBranch_dry:
  "dry \<Longrightarrow>
     changeDefaultBranchAndRetargetPrs env oldB newB repoOrg repoName dry st =
       (None, logSubItem (''Would create a new branch '' @ newB @ '' from '' @ oldB @
          '' and retarget PRs'') st)"
  by (simp add: changeDefaultBranchAndRetargetPrs_def)

lemma reconcileRepo_migrates:
  assumes "org r @ ''/'' @ name r \<notin> set (reposToExclude p)"
    and "getDefaultBranch env (calls st) (org r) (name r) = Inr oldB"
    and "oldB \<noteq> newBranch p"
    and "pullGitRepo env (calls st @ [GetDefaultBranch (org r) (name r)])
           (url r) (repoPathOf env p r) (version r) = Inr msg"
  shows "reconcileRepo env p r st =
           migrateRepo env p r oldB
             (logSubItem msg (perform (PullGitRepo (url r) (repoPathOf env p r) (version r))
                (console_log (''Processing '' @ org r @ ''/'' @ name r)
                   (perform (GetDefaultBranch (org r) (name r)) st))))"
  using assms by (simp add: reconcileRepo_def Let_def)

lemma migrateRepo_errors:
  "errors (snd (migrateRepo env p r oldB st)) =
     errors st
     @ (case fst (pushMirrorWorkflow env oldB (newBranch p) (repoPathOf env p r) (isDryRun p) st) of
          None \<Rightarrow> []
        | Some e \<Rightarrow> (case exn_text e of Inl t \<Rightarrow> [] | Inr shown \<Rightarrow> [errorLabel r @ shown]))
     @ (case fst (catchStep r (pushMirrorWorkflow env oldB (newBranch p) (repoPathOf env p r)
                    (isDryRun p) st)) of
          Some t \<Rightarrow> []
        | None \<Rightarrow>
           (case fst (changeDefaultBranchAndRetargetPrs env oldB (newBranch p) (org r) (name r)
                   (isDryRun p)
                   (snd (catchStep r (pushMirrorWorkflow env oldB (newBranch p)
                      (repoPathOf env p r) (isDryRun p) st)))) of
              None \<Rightarrow> []
            | Some e \<Rightarrow> (case exn_text e of Inl t \<Rightarrow> [] | Inr shown \<Rightarrow> [errorLabel r @ shown])))"
  unfolding migrateRepo_unfold Let_def
  by (simp split: option.splits sum.splits)

lemma migrateRepo_errors_labelled:
  "\<exists>new. errors (snd (migrateRepo env p r oldB st)) = errors st @ new \<and>
         (\<forall>m \<in> set new. \<exists>shown. m = errorLabel r @ shown)"
  unfolding migrateRepo_errors
  by (auto split: option.splits sum.splits)

lemma reconcileRepo_errors:
  "\<exists>new. errors (snd (reconcileRepo env p r st)) = errors st @ new \<and>
         (\<forall>m \<in> set new. \<exists>shown. m = errorLabel r @ shown)"
proof (cases "org r @ ''/'' @ name r \<in> set (reposToExclude p)")
  case True
  then show ?thesis by (simp add: reconcileRepo_def)
next
  case excl: False
  show ?thesis
  proof (cases "getDefaultBranch env (calls st) (org r) (name r)")
    case (Inl e)
    with excl show ?thesis by (simp add: reconcileRepo_def Let_def)
  next
    case (Inr oldB)
    show ?thesis
    proof (cases "oldB = newBranch p")
      case True
      with excl Inr show ?thesis by (simp add: reconcileRepo_def Let_def)
    next
      case neq: False
      show ?thesis
      proof (cases "pullGitRepo env (calls st @ [GetDefaultBranch (org r) (name r)])
                      (url r) (repoPathOf env p r) (version r)")
        case (Inl e)
        with excl Inr neq show ?thesis by (simp add: reconcileRepo_def Let_def)
      next
        case pull: (Inr msg)
        show ?thesis
          unfolding reconcileRepo_migrates [OF excl Inr neq pull]
          using migrateRepo_errors_labelled
            [of env p r oldB "logSubItem msg
               (perform (PullGitRepo (url r) (repoPathOf env p r) (version r))
                 (console_log (''Processing '' @ org r @ ''/'' @ name r)
                   (perform (GetDefaultBranch (org r) (name r)) st)))"]
          by simp
      qed
    qed
  qed
qed

lemma reconcileRepos_errors:
  "\<exists>new. errors (snd (reconcileRepos env p repos st)) = errors st @ new \<and>
         (\<forall>m \<in> set new. \<exists>r \<in> set repos. \<exists>shown. m = errorLabel r @ shown)"
proof (induction repos arbitrary: st)
  case Nil
  then show ?case by simp
next
  case (Cons r rs)
  obtain new1 where one: "errors (snd (reconcileRepo env p r st)) = errors st @ new1"
      "\<forall>m \<in> set new1. \<exists>shown. m = errorLabel r @ shown"
    using reconcileRepo_errors by blast
  show ?case
  proof (cases "reconcileRepo env p r st")
    case (Pair a st1)
    show ?thesis
    proof (cases a)
      case (Inl e)
      with Pair one show ?thesis by auto
    next
      case (Inr r')
      obtain new2 where rest: "errors (snd (reconcileRepos env p rs st1)) = errors st1 @ new2"
          "\<forall>m \<in> set new2. \<exists>r \<in> set rs. \<exists>shown. m = errorLabel r @ shown"
        using Cons.IH by blast
      have "errors (snd (reconcileRepos env p (r # rs) st)) = errors st @ (new1 @ new2)"
        using Pair Inr one(1) rest(1)
        by (cases "reconcileRepos env p rs st1"; cases "fst (reconcileRepos env p rs st1)") auto
      moreover have "\<forall>m \<in> set (new1 @ new2). \<exists>r' \<in> set (r # rs). \<exists>shown. m = errorLabel r' @ shown"
        using one(2) rest(2) by auto
      ultimately show ?thesis by blast
    qed
  qed
qed


text \<open>
  Claim C3. The claim asks that after a mirror-workflow step that throws, the
  default-branch-change step is still attempted and the record's version is set to the
  target branch. The catch clause of lines 91-97 is written for any thrown value (it
  takes the message of an Error and interpolates anything else), but the interpolation
  itself can throw, and it stands in no try block. Here createCommitAndPushFile throws a
  Symbol for ros2/bar (pinned at master, remote default branch galactic, target
  rolling, outside dry-run): the TypeError of the template literal leaves the iteration
  right after the call of createCommitAndPushFile. createNewBranch is never called, no
  record with version rolling is produced, and nothing is pushed on \<^verbatim>\<open>errors\<close>. The
  same failure on ros2/foo ends the whole function before the output files are written.
\<close>

theorem unconvertible_mirror_failure_skips_branch_change:
  "reconcileRepo symbolEnv (exampleParams\<lparr>isDryRun := False\<rparr>) barRepo exampleState =
     (Inl (JsError ''Cannot convert a Symbol value to a string''),
      \<lparr>calls =
         [GetDefaultBranch ''ros2'' ''bar'',
          PullGitRepo ''https://github.com/ros2/bar.git'' ''.cache/master/ros2/bar'' ''master'',
          CreateCommitAndPushFile ''.cache/master/ros2/bar''
            ''.cache/master/ros2/bar/.github/workflows/mirror-rolling-to-galactic.yaml''
            (fillTemplate workflowTemplate
               [''rolling'', ''galactic'', ''rolling'', ''galactic'', ''galactic''])
            ''Mirror rolling to galactic'' False],
       logs = [''Processing ros2/bar'', '' - Pulled https://github.com/ros2/bar.git''],
       errors = [],
       distribution = [(''foo'', ''rolling'')]\<rparr>)
   \<and> makeRos2BranchesConsistent symbolEnv (exampleArguments\<lparr>arg_isDryRun := Some False\<rparr>) =
     \<lparr>thrown = Some (JsError ''Cannot convert a Symbol value to a string''),
      performed =
        [MakeCacheDir ''.cache'' False,
         DownloadFile ''https://raw.githubusercontent.com/ros2/ros2/master/ros2.repos''
           ''.cache/ros2.repos.master.yaml'',
         DownloadFile
           ''https://raw.githubusercontent.com/ros/rosdistro/master/rolling/distribution.yaml''
           ''.cache/distribution.rolling.yaml'',
         GetDefaultBranch ''ros2'' ''foo'',
         PullGitRepo ''https://github.com/ros2/foo.git'' ''.cache/master/ros2/foo'' ''rolling'',
         CreateCommitAndPushFile ''.cache/master/ros2/foo''
           ''.cache/master/ros2/foo/.github/workflows/mirror-rolling-to-galactic.yaml''
           (fillTemplate workflowTemplate
              [''rolling'', ''galactic'', ''rolling'', ''galactic'', ''galactic''])
           ''Mirror rolling to galactic'' False],
      printed = [''Processing ros2/foo'', '' - Pulled https://github.com/ros2/foo.git''],
      recorded = []\<rparr>"
  by (simp add: example_defs run_defs Let_def)

section \<open>Which failures the loop catches\<close>

text \<open>
  Claim C1, as amended. For a repository that is not excluded:
  a failure raised inside the mirror-workflow step or inside the default-branch-change
  step, when the thrown value is one the catch clause can turn into text (an Error with
  its message, or a value that converts to a string), is caught; for each of the two
  steps that fails so, the string
  "Error changing default branch and retargetting PRs on ORG/NAME: " followed by that
  text is appended to \<^verbatim>\<open>errors\<close>, in the order of the steps; the iteration ends
  normally with the record's version set to the target branch, and the loop goes on with
  the rest of the list from the state the iteration left.
  A failure of the query of the default branch, or of the clone of the working copy, is
  not caught: the exception leaves the iteration and the loop, nothing is appended to
  \<^verbatim>\<open>errors\<close>, and the rest of the list is not processed.
\<close>

theorem step_failures_recorded_query_and_pull_failures_propagate:
  fixes env :: "'d env" and p :: params and r :: repo and rs :: "repo list" and st :: "'d state"
  defines "q \<equiv> GetDefaultBranch (org r) (name r)"
  defines "answer \<equiv> getDefaultBranch env (calls st) (org r) (name r)"
  defines "pull \<equiv> pullGitRepo env (calls st @ [q]) (url r) (repoPathOf env p r) (version r)"
  defines "res \<equiv> reconcileRepo env p r st"
  assumes "org r @ ''/'' @ name r \<notin> set (reposToExclude p)"
  shows "(\<forall>oldB msg. answer = Inr oldB \<and> oldB \<noteq> newBranch p \<and> pull = Inr msg \<longrightarrow>
           (let st3 = logSubItem msg
                        (perform (PullGitRepo (url r) (repoPathOf env p r) (version r))
                           (console_log (''Processing '' @ org r @ ''/'' @ name r)
                              (perform q st)));
                m = pushMirrorWorkflow env oldB (newBranch p) (repoPathOf env p r)
                      (isDryRun p) st3;
                c = changeDefaultBranchAndRetargetPrs env oldB (newBranch p) (org r) (name r)
                      (isDryRun p) (snd (catchStep r m))
            in (\<forall>e. fst m = Some e \<longrightarrow> (\<exists>shown. exn_text e = Inr shown)) \<and>
               (\<forall>e. fst c = Some e \<longrightarrow> (\<exists>shown. exn_text e = Inr shown)) \<longrightarrow>
               fst res = Inr (r\<lparr>version := newBranch p\<rparr>) \<and>
               errors (snd res) =
                 errors st
                 @ (case fst m of None \<Rightarrow> [] | Some e \<Rightarrow>
                      (case exn_text e of
                         Inl t \<Rightarrow> []
                       | Inr shown \<Rightarrow>
                           [''Error changing default branch and retargetting PRs on '' @ org r @
                            ''/'' @ name r @ '': '' @ shown]))
                 @ (case fst c of None \<Rightarrow> [] | Some e \<Rightarrow>
                      (case exn_text e of
                         Inl t \<Rightarrow> []
                       | Inr shown \<Rightarrow>
                           [''Error changing default branch and retargetting PRs on '' @ org r @
                            ''/'' @ name r @ '': '' @ shown])) \<and>
               reconcileRepos env p (r # rs) st =
                 (case reconcileRepos env p rs (snd res) of
                    (Inl e, s) \<Rightarrow> (Inl e, s)
                  | (Inr rs', s) \<Rightarrow> (Inr (r\<lparr>version := newBranch p\<rparr> # rs'), s))))
       \<and> (\<forall>e. answer = Inl e \<longrightarrow>
             fst res = Inl e \<and> errors (snd res) = errors st \<and>
             reconcileRepos env p (r # rs) st = (Inl e, snd res))
       \<and> (\<forall>oldB e. answer = Inr oldB \<and> oldB \<noteq> newBranch p \<and> pull = Inl e \<longrightarrow>
             fst res = Inl e \<and> errors (snd res) = errors st \<and>
             reconcileRepos env p (r # rs) st = (Inl e, snd res))"
proof -
  have loop: "reconcileRepos env p (r # rs) st =
      (case reconcileRepos env p rs (snd res) of
         (Inl e, s) \<Rightarrow> (Inl e, s)
       | (Inr rs', s) \<Rightarrow> (Inr (r\<lparr>version := newBranch p\<rparr> # rs'), s))"
    if "fst res = Inr (r\<lparr>version := newBranch p\<rparr>)"
    using that unfolding res_def by (cases "reconcileRepo env p r st") simp
  have query: "fst res = Inl e \<and> errors (snd res) = errors st"
    if "answer = Inl e" for e
    using that assms(5) unfolding res_def answer_def by (simp add: reconcileRepo_def Let_def)
  have clone: "fst res = Inl e \<and> errors (snd res) = errors st"
    if "answer = Inr oldB" "oldB \<noteq> newBranch p" "pull = Inl e" for oldB e
    using that assms(5) unfolding res_def answer_def pull_def q_def
    by (simp add: reconcileRepo_def Let_def)
  have stop: "reconcileRepos env p (r # rs) st = (Inl e, snd res)" if "fst res = Inl e" for e
    using that unfolding res_def by (cases "reconcileRepo env p r st") simp
  show ?thesis
  proof (intro conjI allI impI)
    fix oldB msg
    assume h: "answer = Inr oldB \<and> oldB \<noteq> newBranch p \<and> pull = Inr msg"
    let ?st3 = "logSubItem msg
                  (perform (PullGitRepo (url r) (repoPathOf env p r) (version r))
                     (console_log (''Processing '' @ org r @ ''/'' @ name r) (perform q st)))"
    let ?m = "pushMirrorWorkflow env oldB (newBranch p) (repoPathOf env p r) (isDryRun p) ?st3"
    let ?c = "changeDefaultBranchAndRetargetPrs env oldB (newBranch p) (org r) (name r)
                (isDryRun p) (snd (catchStep r ?m))"
    have run: "res = migrateRepo env p r oldB ?st3"
      unfolding res_def q_def
      using h assms(5) unfolding answer_def pull_def q_def
      by (intro reconcileRepo_migrates) simp_all
    have caught: "fst res = Inr (r\<lparr>version := newBranch p\<rparr>) \<and>
        errors (snd res) =
          errors st
          @ (case fst ?m of None \<Rightarrow> [] | Some e \<Rightarrow>
               (case exn_text e of
                  Inl t \<Rightarrow> []
                | Inr shown \<Rightarrow>
                    [''Error changing default branch and retargetting PRs on '' @ org r @
                     ''/'' @ name r @ '': '' @ shown]))
          @ (case fst ?c of None \<Rightarrow> [] | Some e \<Rightarrow>
               (case exn_text e of
                  Inl t \<Rightarrow> []
                | Inr shown \<Rightarrow>
                    [''Error changing default branch and retargetting PRs on '' @ org r @
                     ''/'' @ name r @ '': '' @ shown]))"
      if m: "\<forall>e. fst ?m = Some e \<longrightarrow> (\<exists>shown. exn_text e = Inr shown)"
        and c: "\<forall>e. fst ?c = Some e \<longrightarrow> (\<exists>shown. exn_text e = Inr shown)"
    proof -
      have m': "fst (catchStep r ?m) = None"
        using m by (auto split: option.splits sum.splits)
      have c': "fst (catchStep r ?c) = None"
        using c by (auto split: option.splits sum.splits)
      have "res = (Inr (r\<lparr>version := newBranch p\<rparr>),
                   updateDistribution env p r (snd (catchStep r ?c)))"
        unfolding run migrateRepo_unfold Let_def by (simp only: m' c' option.case)
      then show ?thesis
        by (simp add: errorLabel_def split: option.splits sum.splits)
    qed
    show "let st3 = logSubItem msg
                        (perform (PullGitRepo (url r) (repoPathOf env p r) (version r))
                           (console_log (''Processing '' @ org r @ ''/'' @ name r)
                              (perform q st)));
                m = pushMirrorWorkflow env oldB (newBranch p) (repoPathOf env p r)
                      (isDryRun p) st3;
                c = changeDefaultBranchAndRetargetPrs env oldB (newBranch p) (org r) (name r)
                      (isDryRun p) (snd (catchStep r m))
            in (\<forall>e. fst m = Some e \<longrightarrow> (\<exists>shown. exn_text e = Inr shown)) \<and>
               (\<forall>e. fst c = Some e \<longrightarrow> (\<exists>shown. exn_text e = Inr shown)) \<longrightarrow>
               fst res = Inr (r\<lparr>version := newBranch p\<rparr>) \<and>
               errors (snd res) =
                 errors st
                 @ (case fst m of None \<Rightarrow> [] | Some e \<Rightarrow>
                      (case exn_text e of
                         Inl t \<Rightarrow> []
                       | Inr shown \<Rightarrow>
                           [''Error changing default branch and retargetting PRs on '' @ org r @
                            ''/'' @ name r @ '': '' @ shown]))
                 @ (case fst c of None \<Rightarrow> [] | Some e \<Rightarrow>
                      (case exn_text e of
                         Inl t \<Rightarrow> []
                       | Inr shown \<Rightarrow>
                           [''Error changing default branch and retargetting PRs on '' @ org r @
                            ''/'' @ name r @ '': '' @ shown])) \<and>
               reconcileRepos env p (r # rs) st =
                 (case reconcileRepos env p rs (snd res) of
                    (Inl e, s) \<Rightarrow> (Inl e, s)
                  | (Inr rs', s) \<Rightarrow> (Inr (r\<lparr>version := newBranch p\<rparr> # rs'), s))"
      unfolding Let_def
    proof (intro impI)
      assume k: "(\<forall>e. fst ?m = Some e \<longrightarrow> (\<exists>shown. exn_text e = Inr shown)) \<and>
                 (\<forall>e. fst ?c = Some e \<longrightarrow> (\<exists>shown. exn_text e = Inr shown))"
      note a = caught [OF conjunct1 [OF k] conjunct2 [OF k]]
      note b = loop [OF conjunct1 [OF a]]
      from a b show "fst res = Inr (r\<lparr>version := newBranch p\<rparr>) \<and>
               errors (snd res) =
                 errors st
                 @ (case fst ?m of None \<Rightarrow> [] | Some e \<Rightarrow>
                      (case exn_text e of
                         Inl t \<Rightarrow> []
                       | Inr shown \<Rightarrow>
                           [''Error changing default branch and retargetting PRs on '' @ org r @
                            ''/'' @ name r @ '': '' @ shown]))
                 @ (case fst ?c of None \<Rightarrow> [] | Some e \<Rightarrow>
                      (case exn_text e of
                         Inl t \<Rightarrow> []
                       | Inr shown \<Rightarrow>
                           [''Error changing default branch and retargetting PRs on '' @ org r @
                            ''/'' @ name r @ '': '' @ shown])) \<and>
               reconcileRepos env p (r # rs) st =
                 (case reconcileRepos env p rs (snd res) of
                    (Inl e, s) \<Rightarrow> (Inl e, s)
                  | (Inr rs', s) \<Rightarrow> (Inr (r\<lparr>version := newBranch p\<rparr> # rs'), s))"
        by (intro conjI) (rule conjunct1, assumption, rule conjunct2, assumption, assumption)
    qed
  next
    fix e assume "answer = Inl e"
    from query [OF this] show "fst res = Inl e" "errors (snd res) = errors st"
      "reconcileRepos env p (r # rs) st = (Inl e, snd res)"
      using stop by blast+
  next
    fix oldB e assume h: "answer = Inr oldB \<and> oldB \<noteq> newBranch p \<and> pull = Inl e"
    then have "fst res = Inl e \<and> errors (snd res) = errors st"
      using clone by blast
    then show "fst res = Inl e" "errors (snd res) = errors st"
      "reconcileRepos env p (r # rs) st = (Inl e, snd res)"
      using stop by blast+
  qed
qed

text \<open>
  ros2/bar, then ros2/foo, outside dry-run, with a push of the workflow file that throws
  an Error and a setDefaultBranch that throws the value 403: two strings are recorded
  for ros2/bar, its iteration ends normally, and the loop goes on to ros2/foo.
\<close>

theorem step_failures_recorded_witness:
  "org barRepo @ ''/'' @ name barRepo \<notin> set (reposToExclude exampleParams)
   \<and> fst (reconcileRepo failingEnv (exampleParams\<lparr>isDryRun := False\<rparr>) barRepo exampleState)
     = Inr (barRepo\<lparr>version := ''rolling''\<rparr>)
   \<and> errors (snd (reconcileRepo failingEnv (exampleParams\<lparr>isDryRun := False\<rparr>) barRepo
        exampleState))
     = [''Error changing default branch and retargetting PRs on ros2/bar: push rejected'',
        ''Error changing default branch and retargetting PRs on ros2/bar: 403'']
   \<and> fst (reconcileRepos failingEnv (exampleParams\<lparr>isDryRun := False\<rparr>) [barRepo, fooRepo]
        exampleState)
     = Inr [barRepo\<lparr>version := ''rolling''\<rparr>, fooRepo\<lparr>version := ''rolling''\<rparr>]"
  using step_failures_recorded_query_and_pull_failures_propagate
      [where r = barRepo and p = "exampleParams\<lparr>isDryRun := False\<rparr>" and env = failingEnv
         and st = exampleState and rs = "[fooRepo]"]
  by (simp add: example_defs run_defs Let_def)


text \<open>
  Against claim C1 as stated: with the list ros2/foo, ros2/bar and a query of the
  default branch that throws, the exception leaves the function at the first
  repository. Nothing is recorded in \<^verbatim>\<open>errors\<close>, ros2/bar is never queried, and the
  output files are not written.
\<close>

theorem query_failure_leaves_the_loop:
  "makeRos2BranchesConsistent unreachableEnv exampleArguments =
     \<lparr>thrown = Some (JsError ''rate limited''),
      performed =
        [MakeCacheDir ''.cache'' False,
         DownloadFile ''https://raw.githubusercontent.com/ros2/ros2/master/ros2.repos''
           ''.cache/ros2.repos.master.yaml'',
         DownloadFile
           ''https://raw.githubusercontent.com/ros/rosdistro/master/rolling/distribution.yaml''
           ''.cache/distribution.rolling.yaml'',
         GetDefaultBranch ''ros2'' ''foo''],
      printed = [],
      recorded = []\<rparr>"
  by (simp add: example_defs run_defs Let_def)

section \<open>The label of the recorded errors\<close>

text \<open>
  Claim C9. Every string the loop appends to \<^verbatim>\<open>errors\<close> begins with
  "Error changing default branch and retargetting PRs on ORG/NAME:" for a repository
  ORG/NAME of the list. This includes the string recorded when the mirror-workflow step
  throws (a value the catch clause can turn into text; for any other value the catch
  clause throws and nothing is appended): it is built from the same text as the one for
  the default-branch-change step, so the label does not tell the two apart.
\<close>

theorem every_recorded_error_has_the_same_label:
  fixes env :: "'d env" and p :: params and r :: repo and st st' :: "'d state"
    and repos :: "repo list" and oldB msg :: string
  shows "(\<exists>new. errors (snd (reconcileRepos env p repos st)) = errors st @ new \<and>
           (\<forall>m \<in> set new. \<exists>r \<in> set repos.
              prefix (''Error changing default branch and retargetting PRs on '' @ org r @
                ''/'' @ name r @ '':'') m))
       \<and> (\<forall>e shown. org r @ ''/'' @ name r \<notin> set (reposToExclude p) \<and>
               getDefaultBranch env (calls st') (org r) (name r) = Inr oldB \<and>
               oldB \<noteq> newBranch p \<and>
               pullGitRepo env (calls st' @ [GetDefaultBranch (org r) (name r)])
                 (url r) (repoPathOf env p r) (version r) = Inr msg \<and>
               fst (pushMirrorWorkflow env oldB (newBranch p) (repoPathOf env p r) (isDryRun p)
                      (logSubItem msg
                         (perform (PullGitRepo (url r) (repoPathOf env p r) (version r))
                            (console_log (''Processing '' @ org r @ ''/'' @ name r)
                               (perform (GetDefaultBranch (org r) (name r)) st'))))) = Some e \<and>
               exn_text e = Inr shown
             \<longrightarrow>
               ''Error changing default branch and retargetting PRs on '' @ org r @ ''/'' @
                 name r @ '': '' @ shown
               \<in> set (errors (snd (reconcileRepo env p r st'))))"
proof (intro conjI allI impI)
  obtain new where new: "errors (snd (reconcileRepos env p repos st)) = errors st @ new"
      "\<forall>m \<in> set new. \<exists>r \<in> set repos. \<exists>shown. m = errorLabel r @ shown"
    using reconcileRepos_errors by blast
  have pre: "prefix (''Error changing default branch and retargetting PRs on '' @ org r @
          ''/'' @ name r @ '':'') (errorLabel r @ tx)" for r tx
    by (simp add: errorLabel_def prefix_def)
  have "\<forall>m \<in> set new. \<exists>r \<in> set repos.
      prefix (''Error changing default branch and retargetting PRs on '' @ org r @
        ''/'' @ name r @ '':'') m"
  proof
    fix m assume "m \<in> set new"
    with new(2) obtain r' tx where r': "r' \<in> set repos" and m: "m = errorLabel r' @ tx"
      by blast
    show "\<exists>r \<in> set repos.
      prefix (''Error changing default branch and retargetting PRs on '' @ org r @
        ''/'' @ name r @ '':'') m"
      unfolding m using r' pre [of r' tx] by (rule_tac x = r' in bexI)
  qed
  with new(1) show "\<exists>new. errors (snd (reconcileRepos env p repos st)) = errors st @ new \<and>
      (\<forall>m \<in> set new. \<exists>r \<in> set repos.
         prefix (''Error changing default branch and retargetting PRs on '' @ org r @
           ''/'' @ name r @ '':'') m)"
    by blast
next
  fix e tx
  assume h: "org r @ ''/'' @ name r \<notin> set (reposToExclude p) \<and>
       getDefaultBranch env (calls st') (org r) (name r) = Inr oldB \<and>
       oldB \<noteq> newBranch p \<and>
       pullGitRepo env (calls st' @ [GetDefaultBranch (org r) (name r)])
         (url r) (repoPathOf env p r) (version r) = Inr msg \<and>
       fst (pushMirrorWorkflow env oldB (newBranch p) (repoPathOf env p r) (isDryRun p)
              (logSubItem msg
                 (perform (PullGitRepo (url r) (repoPathOf env p r) (version r))
                    (console_log (''Processing '' @ org r @ ''/'' @ name r)
                       (perform (GetDefaultBranch (org r) (name r)) st'))))) = Some e \<and>
       exn_text e = Inr tx"
  then have run: "reconcileRepo env p r st' =
        migrateRepo env p r oldB
           (logSubItem msg (perform (PullGitRepo (url r) (repoPathOf env p r) (version r))
              (console_log (''Processing '' @ org r @ ''/'' @ name r)
                 (perform (GetDefaultBranch (org r) (name r)) st'))))"
    by (intro reconcileRepo_migrates) simp_all
  from h show "''Error changing default branch and retargetting PRs on '' @ org r @ ''/'' @
      name r @ '': '' @ tx \<in> set (errors (snd (reconcileRepo env p r st')))"
    unfolding run by (simp add: migrateRepo_errors errorLabel_def)
qed

text \<open>
  ros2/foo outside dry-run, where the push of the workflow file and createNewBranch throw
  with the same message: the two recorded strings are equal.
\<close>

theorem every_recorded_error_has_the_same_label_witness:
  "errors (snd (reconcileRepos
      (failingEnv\<lparr>createNewBranch :=
         (\<lambda>h repoOrg repoName baseBranch newBranchName. Some (JsError ''push rejected''))\<rparr>)
      (exampleParams\<lparr>isDryRun := False\<rparr>) [fooRepo] exampleState))
   = [''Error changing default branch and retargetting PRs on ros2/foo: push rejected'',
      ''Error changing default branch and retargetting PRs on ros2/foo: push rejected'']"
  using every_recorded_error_has_the_same_label
      [where env = "failingEnv\<lparr>createNewBranch :=
         (\<lambda>h repoOrg repoName baseBranch newBranchName. Some (JsError ''push rejected''))\<rparr>"
         and p = "exampleParams\<lparr>isDryRun := False\<rparr>" and repos = "[fooRepo]"
         and st = exampleState and r = fooRepo and st' = exampleState
         and oldB = "''galactic''" and msg = "''Pulled https://github.com/ros2/foo.git''"]
  by (simp add: example_defs run_defs Let_def)

section \<open>Dry-run\<close>

lemma pushMirrorWorkflow_dry:
  "\<exists>cs. calls (snd (pushMirrorWorkflow env oldB newB repoPath True st)) = calls st @ cs \<and>
        (\<forall>c \<in> set cs. \<exists>rp fp content message.
           c = CreateCommitAndPushFile rp fp content message True)"
  by (auto simp: pushMirrorWorkflow_def Let_def split: sum.splits)

lemma migrateRepo_dry_calls:
  assumes "isDryRun p"
  shows "calls (snd (migrateRepo env p r oldB st)) =
           calls (snd (pushMirrorWorkflow env oldB (newBranch p) (repoPathOf env p r) True st))"
  unfolding migrateRepo_unfold Let_def using assms
  by (simp add: changeDefaultBranch_dry split: option.splits sum.splits)


lemma reconcileRepo_dry_kinds:
  assumes "isDryRun p"
  shows "\<exists>cs. calls (snd (reconcileRepo env p r st)) = calls st @ cs \<and>
           (\<forall>c \<in> set cs.
              (\<exists>repoOrg repoName. c = GetDefaultBranch repoOrg repoName) \<or>
              (\<exists>u path v. c = PullGitRepo u path v) \<or>
              (\<exists>repoPath filePath content message.
                 c = CreateCommitAndPushFile repoPath filePath content message True))"
proof (cases "org r @ ''/'' @ name r \<in> set (reposToExclude p)")
  case True
  then show ?thesis by (simp add: reconcileRepo_def)
next
  case excl: False
  show ?thesis
  proof (cases "getDefaultBranch env (calls st) (org r) (name r)")
    case (Inl e)
    with excl show ?thesis by (simp add: reconcileRepo_def Let_def)
  next
    case (Inr oldB)
    show ?thesis
    proof (cases "oldB = newBranch p")
      case True
      with excl Inr show ?thesis by (simp add: reconcileRepo_def Let_def)
    next
      case neq: False
      show ?thesis
      proof (cases "pullGitRepo env (calls st @ [GetDefaultBranch (org r) (name r)])
                      (url r) (repoPathOf env p r) (version r)")
        case (Inl e)
        with excl Inr neq show ?thesis by (simp add: reconcileRepo_def Let_def)
      next
        case pull: (Inr msg)
        let ?st3 = "logSubItem msg (perform (PullGitRepo (url r) (repoPathOf env p r) (version r))
               (console_log (''Processing '' @ org r @ ''/'' @ name r)
                  (perform (GetDefaultBranch (org r) (name r)) st)))"
        obtain cs where m:
            "calls (snd (pushMirrorWorkflow env oldB (newBranch p) (repoPathOf env p r) True ?st3))
               = calls ?st3 @ cs"
            "\<forall>c \<in> set cs. \<exists>rp fp content message.
               c = CreateCommitAndPushFile rp fp content message True"
          using pushMirrorWorkflow_dry [of env oldB "newBranch p" "repoPathOf env p r" ?st3]
          by blast
        let ?cs = "[GetDefaultBranch (org r) (name r),
                    PullGitRepo (url r) (repoPathOf env p r) (version r)] @ cs"
        have st3: "calls ?st3 = calls st @ [GetDefaultBranch (org r) (name r),
                    PullGitRepo (url r) (repoPathOf env p r) (version r)]"
          by simp
        have a: "calls (snd (reconcileRepo env p r st)) = calls st @ ?cs"
          unfolding reconcileRepo_migrates [OF excl Inr neq pull]
            migrateRepo_dry_calls [OF assms]
          by (simp only: m(1) st3 append_assoc)
        have b: "\<forall>c \<in> set ?cs.
              (\<exists>repoOrg repoName. c = GetDefaultBranch repoOrg repoName) \<or>
              (\<exists>u path v. c = PullGitRepo u path v) \<or>
              (\<exists>repoPath filePath content message.
                 c = CreateCommitAndPushFile repoPath filePath content message True)"
        proof (intro ballI)
          fix c assume "c \<in> set ?cs"
          then have "c = GetDefaultBranch (org r) (name r) \<or>
              c = PullGitRepo (url r) (repoPathOf env p r) (version r) \<or> c \<in> set cs"
            by simp
          then show "(\<exists>repoOrg repoName. c = GetDefaultBranch repoOrg repoName) \<or>
              (\<exists>u path v. c = PullGitRepo u path v) \<or>
              (\<exists>repoPath filePath content message.
                 c = CreateCommitAndPushFile repoPath filePath content message True)"
            using m(2) by blast
        qed
        show ?thesis
          by (rule exI [of _ ?cs], intro conjI) (rule a b)+
      qed
    qed
  qed
qed

text \<open>
  Claim C2, as amended. When isDryRun is true, the iteration for any repository calls
  neither createNewBranch nor setDefaultBranch nor retargetPrs: the operations it
  performs are the query of the default branch, the clone, and, when no workflow file
  exists yet, one call of createCommitAndPushFile, which receives the isDryRun flag set;
  what a commit-and-push in dry-run amounts to is left to that helper. For a repository
  that reaches the two steps, the lines printed are, in order: "Processing ORG/NAME";
  the message the clone returned; for the mirror-workflow step either the already-exists
  message, the status message the helper returned, or the labelled error; the line
  "Would create a new branch NEW from OLD and retarget PRs", which describes the action
  not taken; and the notice about the distribution file when the repository is absent
  from it. The messages of the helpers are printed as returned, whatever they are.
\<close>

theorem dry_run_calls_and_messages:
  fixes env :: "'d env" and p :: params and r :: repo and st :: "'d state"
  defines "q \<equiv> GetDefaultBranch (org r) (name r)"
  defines "repoPath \<equiv> repoPathOf env p r"
  defines "pullCall \<equiv> PullGitRepo (url r) repoPath (version r)"
  defines "res \<equiv> reconcileRepo env p r st"
  assumes "isDryRun p"
  shows "(\<exists>cs. calls (snd res) = calls st @ cs \<and>
           (\<forall>c \<in> set cs.
              (\<exists>repoOrg repoName. c = GetDefaultBranch repoOrg repoName) \<or>
              (\<exists>u path v. c = PullGitRepo u path v) \<or>
              (\<exists>rp filePath content message.
                 c = CreateCommitAndPushFile rp filePath content message True)))
       \<and> (\<forall>oldB msg.
             org r @ ''/'' @ name r \<notin> set (reposToExclude p) \<and>
             getDefaultBranch env (calls st) (org r) (name r) = Inr oldB \<and>
             oldB \<noteq> newBranch p \<and>
             pullGitRepo env (calls st @ [q]) (url r) repoPath (version r) = Inr msg \<longrightarrow>
             (let path = migrationWorkflowFilePath env repoPath oldB (newBranch p);
                  content = migrationWorkflowFileContent env oldB (newBranch p);
                  commitMessage = mirrorCommitMessage oldB (newBranch p);
                  present = existsSync env (calls st @ [q, pullCall]) path;
                  status = createCommitAndPushFile env (calls st @ [q, pullCall]) repoPath path
                             content commitMessage True
              in calls (snd res) =
                   calls st @ [q, pullCall] @
                   (if present then []
                    else [CreateCommitAndPushFile repoPath path content commitMessage True]) \<and>
                 (present \<or> (\<forall>e. status = Inl e \<longrightarrow> (\<exists>shown. exn_text e = Inr shown)) \<longrightarrow>
                    fst res = Inr (r\<lparr>version := newBranch p\<rparr>) \<and>
                    logs (snd res) =
                      logs st @
                      [''Processing '' @ org r @ ''/'' @ name r, '' - '' @ msg] @
                      [if present then
                         '' - Doing nothing - Workflow file already exists: '' @ path
                       else (case status of
                               Inr message \<Rightarrow> '' - '' @ message
                             | Inl e \<Rightarrow>
                                 '' - ERROR: Error changing default branch and retargetting PRs on ''
                                 @ org r @ ''/'' @ name r @ '': '' @
                                 (case exn_text e of Inr shown \<Rightarrow> shown | Inl t \<Rightarrow> []))] @
                      ['' - Would create a new branch '' @ newBranch p @ '' from '' @ oldB @
                         '' and retarget PRs''] @
                      (case fst (setDistributionVersion env (distribution st) (name r)
                                   (newBranch p)) of
                         None \<Rightarrow> []
                       | Some e \<Rightarrow>
                           ['' - Could not update distribution.yaml, since '' @ org r @ ''/'' @
                            name r @ '' is not in the distribution.yaml'']))))"
proof (intro conjI allI impI)
  show "\<exists>cs. calls (snd res) = calls st @ cs \<and>
           (\<forall>c \<in> set cs.
              (\<exists>repoOrg repoName. c = GetDefaultBranch repoOrg repoName) \<or>
              (\<exists>u path v. c = PullGitRepo u path v) \<or>
              (\<exists>rp filePath content message.
                 c = CreateCommitAndPushFile rp filePath content message True))"
    unfolding res_def by (rule reconcileRepo_dry_kinds [OF assms(5)])
next
  fix oldB msg
  assume h: "org r @ ''/'' @ name r \<notin> set (reposToExclude p) \<and>
             getDefaultBranch env (calls st) (org r) (name r) = Inr oldB \<and>
             oldB \<noteq> newBranch p \<and>
             pullGitRepo env (calls st @ [q]) (url r) repoPath (version r) = Inr msg"
  let ?st3 = "logSubItem msg (perform (PullGitRepo (url r) (repoPathOf env p r) (version r))
               (console_log (''Processing '' @ org r @ ''/'' @ name r)
                  (perform (GetDefaultBranch (org r) (name r)) st)))"
  have run: "res = migrateRepo env p r oldB ?st3"
    unfolding res_def using h unfolding q_def repoPath_def
    by (intro reconcileRepo_migrates) simp_all
  have dry: "isDryRun p = True" using assms(5) by simp
  show "let path = migrationWorkflowFilePath env repoPath oldB (newBranch p);
                  content = migrationWorkflowFileContent env oldB (newBranch p);
                  commitMessage = mirrorCommitMessage oldB (newBranch p);
                  present = existsSync env (calls st @ [q, pullCall]) path;
                  status = createCommitAndPushFile env (calls st @ [q, pullCall]) repoPath path
                             content commitMessage True
              in calls (snd res) =
                   calls st @ [q, pullCall] @
                   (if present then []
                    else [CreateCommitAndPushFile repoPath path content commitMessage True]) \<and>
                 (present \<or> (\<forall>e. status = Inl e \<longrightarrow> (\<exists>shown. exn_text e = Inr shown)) \<longrightarrow>
                    fst res = Inr (r\<lparr>version := newBranch p\<rparr>) \<and>
                    logs (snd res) =
                      logs st @
                      [''Processing '' @ org r @ ''/'' @ name r, '' - '' @ msg] @
                      [if present then
                         '' - Doing nothing - Workflow file already exists: '' @ path
                       else (case status of
                               Inr message \<Rightarrow> '' - '' @ message
                             | Inl e \<Rightarrow>
                                 '' - ERROR: Error changing default branch and retargetting PRs on ''
                                 @ org r @ ''/'' @ name r @ '': '' @
                                 (case exn_text e of Inr shown \<Rightarrow> shown | Inl t \<Rightarrow> []))] @
                      ['' - Would create a new branch '' @ newBranch p @ '' from '' @ oldB @
                         '' and retarget PRs''] @
                      (case fst (setDistributionVersion env (distribution st) (name r)
                                   (newBranch p)) of
                         None \<Rightarrow> []
                       | Some e \<Rightarrow>
                           ['' - Could not update distribution.yaml, since '' @ org r @ ''/'' @
                            name r @ '' is not in the distribution.yaml'']))"
    unfolding run migrateRepo_unfold q_def pullCall_def repoPath_def dry
    by (auto simp: Let_def pushMirrorWorkflow_def changeDefaultBranch_dry errorLabel_def
          split: sum.splits option.splits)
qed


text \<open>The iteration for ros2/foo in dry-run, remote default branch galactic.\<close>

theorem dry_run_calls_and_messages_witness:
  "isDryRun exampleParams
   \<and> reconcileRepo (exampleEnv ''galactic'') exampleParams fooRepo exampleState
     = (Inr (fooRepo\<lparr>version := ''rolling''\<rparr>),
        \<lparr>calls =
           [GetDefaultBranch ''ros2'' ''foo'',
            PullGitRepo ''https://github.com/ros2/foo.git'' ''.cache/master/ros2/foo'' ''rolling'',
            CreateCommitAndPushFile ''.cache/master/ros2/foo''
              ''.cache/master/ros2/foo/.github/workflows/mirror-rolling-to-galactic.yaml''
              (fillTemplate workflowTemplate
                 [''rolling'', ''galactic'', ''rolling'', ''galactic'', ''galactic''])
              ''Mirror rolling to galactic'' True],
         logs =
           [''Processing ros2/foo'',
            '' - Pulled https://github.com/ros2/foo.git'',
            '' - Would commit .cache/master/ros2/foo/.github/workflows/mirror-rolling-to-galactic.yaml'',
            '' - Would create a new branch rolling from galactic and retarget PRs''],
         errors = [],
         distribution = [(''foo'', ''rolling'')]\<rparr>)"
  using dry_run_calls_and_messages
      [where env = "exampleEnv ''galactic''" and p = exampleParams and r = fooRepo
         and st = exampleState]
  by (simp add: example_defs run_defs Let_def)

text \<open>
  Against claim C2 as stated: in dry-run, for ros2/foo with remote default branch
  galactic, createCommitAndPushFile is called (with the isDryRun flag set), and with a
  clone that returns the empty message the message logged at line 82 is empty: the
  second line printed is the bare prefix of logSubItem.
\<close>

theorem dry_run_still_calls_the_commit_helper:
  "isDryRun exampleParams
   \<and> reconcileRepo terseEnv exampleParams fooRepo exampleState
     = (Inr (fooRepo\<lparr>version := ''rolling''\<rparr>),
        \<lparr>calls =
           [GetDefaultBranch ''ros2'' ''foo'',
            PullGitRepo ''https://github.com/ros2/foo.git'' ''.cache/master/ros2/foo'' ''rolling'',
            CreateCommitAndPushFile ''.cache/master/ros2/foo''
              ''.cache/master/ros2/foo/.github/workflows/mirror-rolling-to-galactic.yaml''
              (fillTemplate workflowTemplate
                 [''rolling'', ''galactic'', ''rolling'', ''galactic'', ''galactic''])
              ''Mirror rolling to galactic'' True],
         logs =
           [''Processing ros2/foo'',
            '' - '' @ [],
            '' - Would commit .cache/master/ros2/foo/.github/workflows/mirror-rolling-to-galactic.yaml'',
            '' - Would create a new branch rolling from galactic and retarget PRs''],
         errors = [],
         distribution = [(''foo'', ''rolling'')]\<rparr>)"
  by (simp add: example_defs run_defs Let_def)

section \<open>How the function completes\<close>

lemma foldl_logSubItem:
  "foldl (\<lambda>s message. logSubItem message s) st ms = st\<lparr>logs := logs st @ map ((@) '' - '') ms\<rparr>"
  by (induction ms arbitrary: st) (simp_all add: logSubItem_def console_log_def)

lemma printSummary_fields [simp]:
  "calls (printSummary st) = calls st"
  "errors (printSummary st) = errors st"
  "distribution (printSummary st) = distribution st"
  "logs (printSummary st) =
     logs st @ (if errors st = [] then [''Done! - No errors'']
                else ''Finished with errors:'' # map ((@) '' - '') (errors st))"
  by (simp_all add: printSummary_def foldl_logSubItem console_log_def)

text \<open>
  Claim C8, as amended. Once the loop has gone through the list and both output files
  are written, the function prints its summary and returns normally (the promise
  resolves, with no value) whether or not errors were recorded. The recorded errors show
  only in what is printed: "Finished with errors:" followed by one line per error when
  the list is non-empty, "Done! - No errors" when it is empty. The list itself is local
  and is not handed to the caller.
\<close>

theorem completion_does_not_depend_on_recorded_errors:
  fixes env :: "'d env" and a :: arguments
  defines "p \<equiv> applyDefaults a"
  assumes "loadManifests env p = (Inr (repos, d), cs)"
    and "reconcileRepos env p repos (initialState cs d) = (Inr repos', st)"
    and "writeFileSync env (calls st) (outputReposYamlPath env p) (toReposFile env repos') = None"
    and "writeFileSync env
           (calls st @ [WriteFileSync (outputReposYamlPath env p) (toReposFile env repos')])
           (outputRosDistroYamlPath env p) (toDistributionFile env (distribution st)) = None"
  shows "makeRos2BranchesConsistent env a =
           \<lparr>thrown = None,
            performed = calls st @
              [WriteFileSync (outputReposYamlPath env p) (toReposFile env repos'),
               WriteFileSync (outputRosDistroYamlPath env p)
                 (toDistributionFile env (distribution st))],
            printed = logs st @
              (if errors st = [] then [''Done! - No errors'']
               else ''Finished with errors:'' # map (\<lambda>message. '' - '' @ message) (errors st)),
            recorded = errors st\<rparr>"
  using assms(2-5) unfolding p_def
  by (simp add: makeRos2BranchesConsistent_def writeOutputs_def Let_def)

text \<open>
  A run outside dry-run on ros2/foo in which the push of the workflow file and
  setDefaultBranch throw: two errors are recorded, both files are written, and the
  function returns normally.
\<close>

theorem completion_does_not_depend_on_recorded_errors_witness:
  "makeRos2BranchesConsistent failingEnv (exampleArguments\<lparr>arg_isDryRun := Some False\<rparr>) =
     \<lparr>thrown = None,
      performed =
        [MakeCacheDir ''.cache'' False,
         DownloadFile ''https://raw.githubusercontent.com/ros2/ros2/master/ros2.repos''
           ''.cache/ros2.repos.master.yaml'',
         DownloadFile
           ''https://raw.githubusercontent.com/ros/rosdistro/master/rolling/distribution.yaml''
           ''.cache/distribution.rolling.yaml'',
         GetDefaultBranch ''ros2'' ''foo'',
         PullGitRepo ''https://github.com/ros2/foo.git'' ''.cache/master/ros2/foo'' ''rolling'',
         CreateCommitAndPushFile ''.cache/master/ros2/foo''
           ''.cache/master/ros2/foo/.github/workflows/mirror-rolling-to-galactic.yaml''
           (fillTemplate workflowTemplate
              [''rolling'', ''galactic'', ''rolling'', ''galactic'', ''galactic''])
           ''Mirror rolling to galactic'' False,
         CreateNewBranch ''ros2'' ''foo'' ''galactic'' ''rolling'',
         SetDefaultBranch ''ros2'' ''foo'' ''rolling'',
         WriteFileSync ''.cache/ros2.repos.master.output.yaml'' ''ros2/foo rolling;'',
         WriteFileSync ''.cache/distribution.rolling.output.yaml'' ''foo rolling;''],
      printed =
        [''Processing ros2/foo'',
         '' - Pulled https://github.com/ros2/foo.git'',
         '' - ERROR: Error changing default branch and retargetting PRs on ros2/foo: push rejected'',
         '' - ERROR: Error changing default branch and retargetting PRs on ros2/foo: 403'',
         ''Finished with errors:'',
         '' - Error changing default branch and retargetting PRs on ros2/foo: push rejected'',
         '' - Error changing default branch and retargetting PRs on ros2/foo: 403''],
      recorded =
        [''Error changing default branch and retargetting PRs on ros2/foo: push rejected'',
         ''Error changing default branch and retargetting PRs on ros2/foo: 403'']\<rparr>"
  using completion_does_not_depend_on_recorded_errors
      [where env = failingEnv and a = "exampleArguments\<lparr>arg_isDryRun := Some False\<rparr>"
         and repos = "[fooRepo]" and d = "[(''foo'', ''rolling'')]"
         and cs = "[MakeCacheDir ''.cache'' False,
             DownloadFile ''https://raw.githubusercontent.com/ros2/ros2/master/ros2.repos''
               ''.cache/ros2.repos.master.yaml'',
             DownloadFile
               ''https://raw.githubusercontent.com/ros/rosdistro/master/rolling/distribution.yaml''
               ''.cache/distribution.rolling.yaml'']"
         and repos' = "[fooRepo\<lparr>version := ''rolling''\<rparr>]"
         and st = "snd (reconcileRepos failingEnv
             (applyDefaults (exampleArguments\<lparr>arg_isDryRun := Some False\<rparr>)) [fooRepo]
             (initialState
                [MakeCacheDir ''.cache'' False,
                 DownloadFile ''https://raw.githubusercontent.com/ros2/ros2/master/ros2.repos''
                   ''.cache/ros2.repos.master.yaml'',
                 DownloadFile
                   ''https://raw.githubusercontent.com/ros/rosdistro/master/rolling/distribution.yaml''
                   ''.cache/distribution.rolling.yaml'']
                [(''foo'', ''rolling'')]))"]
  by (simp add: example_defs run_defs Let_def)

text \<open>
  Against claim C8 as stated: the same run records two errors and still returns
  normally, exactly as the run in which every helper succeeds and nothing is recorded.
\<close>

theorem errors_recorded_yet_normal_completion:
  "thrown (makeRos2BranchesConsistent failingEnv
      (exampleArguments\<lparr>arg_isDryRun := Some False\<rparr>)) = None
   \<and> recorded (makeRos2BranchesConsistent failingEnv
      (exampleArguments\<lparr>arg_isDryRun := Some False\<rparr>)) =
       [''Error changing default branch and retargetting PRs on ros2/foo: push rejected'',
        ''Error changing default branch and retargetting PRs on ros2/foo: 403'']
   \<and> thrown (makeRos2BranchesConsistent (exampleEnv ''galactic'')
      (exampleArguments\<lparr>arg_isDryRun := Some False\<rparr>)) = None
   \<and> recorded (makeRos2BranchesConsistent (exampleEnv ''galactic'')
      (exampleArguments\<lparr>arg_isDryRun := Some False\<rparr>)) = []"
  by (simp add: example_defs run_defs Let_def)

end
